theory Spec2Isabelle
  imports Complex_Main
begin

text \<open>
  A shallow embedding of the audio analysis core of the VIB34D unified pulse game: the
  latency compensator, the beat and tempo tracker of the audio director, the audio-driven
  level generator, the spectral centroid of the director and of the particle system, and
  the integration layer that turns the analysis into visualizer parameters. Each section
  of definitions follows one class of the source; the properties come after all the
  definitions.
\<close>

section \<open>JavaScript array helpers\<close>

text \<open>
  \<^verbatim>\<open>Array.prototype.slice(begin, end)\<close>: a negative index counts from the end of the
  array, and both indices are clipped to the array.
\<close>

definition js_slice :: "int \<Rightarrow> int \<Rightarrow> 'a list \<Rightarrow> 'a list" where
  "js_slice b e xs =
     (let n = int (length xs);
          k = (if b < 0 then max 0 (n + b) else min b n);
          f = (if e < 0 then max 0 (n + e) else min e n)
      in take (nat (f - k)) (drop (nat k) xs))"

text \<open>\<^verbatim>\<open>slice(begin)\<close> with the end left out runs to the end of the array.\<close>

definition js_slice_from :: "int \<Rightarrow> 'a list \<Rightarrow> 'a list" where
  "js_slice_from b xs = js_slice b (int (length xs)) xs"

section \<open>AudioLatencyCompensation\<close>

text \<open>
  The fields of \<^verbatim>\<open>latencyProfile\<close> and \<^verbatim>\<open>adaptation\<close> that the adaptive
  compensation reads or writes, and the timers handed to \<^verbatim>\<open>setTimeout\<close> (callback
  identifier and delay, newest last).
\<close>

record compensator =
  inputLatency :: real
  totalLatency :: real
  adaptiveOffset :: real
  adaptationEnabled :: bool
  recentMeasurements :: "real list"
  trendSlope :: real
  timers :: "(nat \<times> real) list"

definition learningRate :: real where
  "learningRate = 0.1"

definition windowSize :: nat where
  "windowSize = 50"

text \<open>The state the constructor builds, before calibration.\<close>

definition newCompensator :: compensator where
  "newCompensator =
     \<lparr>inputLatency = 0, totalLatency = 0, adaptiveOffset = 0, adaptationEnabled = True,
      recentMeasurements = [], trendSlope = 0, timers = []\<rparr>"

definition processLatencyMeasurements :: "real list \<Rightarrow> compensator \<Rightarrow> compensator" where
  "processLatencyMeasurements measurements c =
     (if length measurements > 0
      then c\<lparr>totalLatency := sum_list measurements / real (length measurements)\<rparr>
      else c\<lparr>totalLatency := inputLatency c + 20\<rparr>)"

definition performLatencyCalibration :: "compensator \<Rightarrow> compensator" where
  "performLatencyCalibration c = c\<lparr>adaptiveOffset := - totalLatency c\<rparr>"

text \<open>
  The two window means of \<^verbatim>\<open>updateAdaptiveCompensation\<close>. Both are divided by
  \<^verbatim>\<open>Math.min(windowSize, recentMeasurements.length)\<close>.
\<close>

definition recentAvg :: "real list \<Rightarrow> real" where
  "recentAvg ms =
     sum_list (js_slice_from (- int windowSize) ms) / real (min windowSize (length ms))"

definition oldAvg :: "real list \<Rightarrow> real" where
  "oldAvg ms =
     sum_list (js_slice (- int windowSize * 2) (- int windowSize) ms)
       / real (min windowSize (length ms))"

definition trend :: "real list \<Rightarrow> real" where
  "trend ms = recentAvg ms - oldAvg ms"

text \<open>
  \<^verbatim>\<open>updateAdaptiveCompensation\<close>. It returns early below 10 measurements, so the
  divisor of the two means is at least 10 and \<^verbatim>\<open>isNaN(oldAvg)\<close> is false on every
  path that reaches it.
\<close>

definition updateAdaptiveCompensation :: "compensator \<Rightarrow> compensator" where
  "updateAdaptiveCompensation c =
     (if length (recentMeasurements c) < 10 then c
      else
        let t = trend (recentMeasurements c);
            c1 = c\<lparr>trendSlope := t\<rparr>
        in if \<bar>t\<bar> > 5
           then c1\<lparr>adaptiveOffset := adaptiveOffset c1 + (- t * learningRate)\<rparr>
           else c1)"

definition getCompensatedTimestamp :: "compensator \<Rightarrow> real \<Rightarrow> real" where
  "getCompensatedTimestamp c originalTimestamp = originalTimestamp + adaptiveOffset c"

definition recordTimingMeasurement :: "real \<Rightarrow> real \<Rightarrow> compensator \<Rightarrow> compensator" where
  "recordTimingMeasurement expectedTime actualTime c =
     (let ms = recentMeasurements c @ [actualTime - expectedTime]
      in c\<lparr>recentMeasurements := (if length ms > windowSize * 2 then tl ms else ms)\<rparr>)"

definition compensatedDelay :: "compensator \<Rightarrow> real \<Rightarrow> real" where
  "compensatedDelay c delay = max 0 (delay + adaptiveOffset c)"

definition scheduleCompensatedEvent :: "nat \<Rightarrow> real \<Rightarrow> compensator \<Rightarrow> compensator" where
  "scheduleCompensatedEvent callback delay c =
     c\<lparr>timers := timers c @ [(callback, compensatedDelay c delay)]\<rparr>"

definition enableEmergencyMode :: "compensator \<Rightarrow> compensator" where
  "enableEmergencyMode c = c\<lparr>adaptationEnabled := False, adaptiveOffset := - 100\<rparr>"

text \<open>
  The calls a client and the one-second interval timer make on a compensator. The interval
  installed by \<^verbatim>\<open>startAdaptiveMonitoring\<close> calls \<^verbatim>\<open>updateAdaptiveCompensation\<close>
  without looking at \<^verbatim>\<open>adaptation.enabled\<close> again.
\<close>

datatype comp_call =
    Record real real
  | Update
  | Schedule nat real
  | Emergency

fun comp_step :: "compensator \<Rightarrow> comp_call \<Rightarrow> compensator" where
  "comp_step c (Record e a) = recordTimingMeasurement e a c"
| "comp_step c Update = updateAdaptiveCompensation c"
| "comp_step c (Schedule cb d) = scheduleCompensatedEvent cb d c"
| "comp_step c Emergency = enableEmergencyMode c"

definition comp_run :: "compensator \<Rightarrow> comp_call list \<Rightarrow> compensator" where
  "comp_run c calls = foldl comp_step c calls"

section \<open>UnifiedAudioGameDirector\<close>

text \<open>
  Numbers are modelled as reals and \<^verbatim>\<open>Date.now()\<close> readings as integers
  (milliseconds): sums, products and quotients of finite numbers are exact, without
  rounding. A bin of the frequency buffer holds a level in dB, which is
  \<^verbatim>\<open>-Infinity\<close> for a silent bin or a finite number; a buffer with a
  \<^verbatim>\<open>+Infinity\<close> or NaN bin is outside the model.
\<close>

datatype sample = NegInf | Fin real

text \<open>
  The range of doubles: a positive real at or below \<open>underflowBound\<close>
  (\<open>2\<^sup>-\<^sup>1\<^sup>0\<^sup>7\<^sup>5\<close>) rounds to 0, and a real at or above \<open>overflowBound\<close>
  (\<open>2\<^sup>1\<^sup>0\<^sup>2\<^sup>4 - 2\<^sup>9\<^sup>7\<^sup>0\<close>) rounds to \<^verbatim>\<open>Infinity\<close>.
\<close>

definition underflowBound :: real where
  "underflowBound = 1 / 2 ^ 1075"

definition overflowBound :: real where
  "overflowBound = 2 ^ 1024 - 2 ^ 970"

text \<open>
  \<^verbatim>\<open>Math.pow(10, x / 20)\<close> on a bin: 0 for a silent bin and for a level so low that
  the power underflows (below about -6472 dB). For a level so high that the power
  overflows (above about 6165 dB) the code has \<^verbatim>\<open>Infinity\<close>, which is not a real:
  \<open>overflows\<close> tells these bins, the functions of the model whose result is then NaN
  test it, and the energies of such a frame, infinite in the code, are outside the model.
\<close>

fun magnitude :: "sample \<Rightarrow> real" where
  "magnitude NegInf = 0"
| "magnitude (Fin x) = (if 10 powr (x / 20) \<le> underflowBound then 0 else 10 powr (x / 20))"

fun overflows :: "sample \<Rightarrow> bool" where
  "overflows NegInf = False"
| "overflows (Fin x) = (overflowBound \<le> 10 powr (x / 20))"

record director =
  frequencyData :: "sample list"
  sampleRate :: real
  energyHistory :: "(int \<times> real) list"
  beatHistory :: "int list"
  currentBPM :: real
  lastBeatTime :: int
  beatConfidence :: real

text \<open>
  The constructor's state. \<^verbatim>\<open>new Float32Array(2048)\<close> is filled with zeros, that is
  0 dB in every bin.
\<close>

definition newDirector :: "real \<Rightarrow> director" where
  "newDirector rate =
     \<lparr>frequencyData = replicate 2048 (Fin 0), sampleRate = rate, energyHistory = [],
      beatHistory = [], currentBPM = 120, lastBeatTime = 0, beatConfidence = 0\<rparr>"

definition calculateTotalEnergy :: "director \<Rightarrow> real" where
  "calculateTotalEnergy d =
     sum_list (map magnitude (frequencyData d)) / real (length (frequencyData d))"

text \<open>
  One band of \<^verbatim>\<open>analyzeFrequencyBands\<close>: the loop runs over the bins from
  \<open>startBin\<close> up to \<open>endBin\<close> and the end of the buffer, and the sum is divided by
  \<open>endBin - startBin\<close>.
\<close>

definition bandEnergy :: "director \<Rightarrow> real \<Rightarrow> real \<Rightarrow> real" where
  "bandEnergy d lo hi =
     (let nyquist = sampleRate d / 2;
          binSize = nyquist / real (length (frequencyData d));
          startBin = \<lfloor>lo / binSize\<rfloor>;
          endBin = \<lfloor>hi / binSize\<rfloor>
      in sum_list (map magnitude (take (nat (endBin - startBin)) (drop (nat startBin) (frequencyData d))))
           / real_of_int (endBin - startBin))"

record bands =
  subBass :: real
  bass :: real
  lowMid :: real
  mid :: real
  highMid :: real
  presence :: real
  brilliance :: real

definition analyzeFrequencyBands :: "director \<Rightarrow> bands" where
  "analyzeFrequencyBands d =
     \<lparr>subBass = bandEnergy d 0 60, bass = bandEnergy d 60 250, lowMid = bandEnergy d 250 500,
      mid = bandEnergy d 500 2000, highMid = bandEnergy d 2000 4000,
      presence = bandEnergy d 4000 6000, brilliance = bandEnergy d 6000 20000\<rparr>"

record beat =
  detected :: bool
  strength :: real
  confidence :: real
  timeSinceLastBeat :: int

text \<open>
  \<^verbatim>\<open>detectBeat\<close>, with the reading of \<^verbatim>\<open>Date.now()\<close> as an argument. The energy
  history keeps 50 entries and the beat history 20.
\<close>

definition noBeat :: "int \<Rightarrow> director \<Rightarrow> beat" where
  "noBeat now d =
     \<lparr>detected = False, strength = 0, confidence = beatConfidence d,
      timeSinceLastBeat = now - lastBeatTime d\<rparr>"

definition detectBeat :: "int \<Rightarrow> director \<Rightarrow> beat \<times> director" where
  "detectBeat now d =
     (let currentEnergy = calculateTotalEnergy d;
          h = energyHistory d @ [(now, currentEnergy)];
          d1 = d\<lparr>energyHistory := (if length h > 50 then tl h else h)\<rparr>
      in if length (energyHistory d1) > 10
         then
           let avg = sum_list (map snd (js_slice_from (- 10) (energyHistory d1))) / 10;
               threshold = avg * 1.5
           in if currentEnergy > threshold \<and> now - lastBeatTime d1 > 300
              then
                let b = beatHistory d1 @ [now];
                    d2 = d1\<lparr>lastBeatTime := now,
                            beatHistory := (if length b > 20 then tl b else b)\<rparr>
                in (\<lparr>detected = True, strength = (currentEnergy - threshold) / threshold,
                     confidence = beatConfidence d2,
                     timeSinceLastBeat = now - lastBeatTime d2\<rparr>, d2)
              else (noBeat now d1, d1)
         else (noBeat now d1, d1))"

text \<open>The differences \<^verbatim>\<open>beatHistory[i] - beatHistory[i-1]\<close> for \<open>i\<close> from 1.\<close>

fun intervals :: "int list \<Rightarrow> real list" where
  "intervals (a # b # ts) = real_of_int (b - a) # intervals (b # ts)"
| "intervals ts = []"

definition avgInterval :: "int list \<Rightarrow> real" where
  "avgInterval ts = sum_list (intervals ts) / real (length (intervals ts))"

text \<open>
  \<^verbatim>\<open>calculateTempo\<close>: the blend is stored in \<^verbatim>\<open>currentBPM\<close>; the value returned is
  the stored one clamped to 60..200.
\<close>

definition calculateTempo :: "director \<Rightarrow> real \<times> director" where
  "calculateTempo d =
     (if length (beatHistory d) < 4 then (currentBPM d, d)
      else
        let newBPM = 60000 / avgInterval (beatHistory d);
            d1 = d\<lparr>currentBPM := currentBPM d * 0.8 + newBPM * 0.2\<rparr>
        in (max 60 (min 200 (currentBPM d1)), d1))"

definition getCurrentBPM :: "director \<Rightarrow> real" where
  "getCurrentBPM d = currentBPM d"

record beat_info =
  bpm :: real
  infoLastBeatTime :: int
  infoTimeSinceLastBeat :: int
  infoBeatHistory :: "int list"

definition getBeatInfo :: "int \<Rightarrow> director \<Rightarrow> beat_info" where
  "getBeatInfo now d =
     \<lparr>bpm = currentBPM d, infoLastBeatTime = lastBeatTime d,
      infoTimeSinceLastBeat = now - lastBeatTime d, infoBeatHistory = beatHistory d\<rparr>"

text \<open>
  One pass of the director's \<^verbatim>\<open>processAudio\<close> loop, as far as the beat and tempo
  state goes: the analyser fills the frequency buffer, then
  \<^verbatim>\<open>performCompleteAudioAnalysis\<close> calls \<^verbatim>\<open>detectBeat\<close> and
  \<^verbatim>\<open>calculateTempo\<close> in this order. The other entries of the analysis object
  do not write this state; some of them call methods that the class does not define
  (\<^verbatim>\<open>analyzeHarmony\<close>, \<^verbatim>\<open>analyzeDynamics\<close>, \<^verbatim>\<open>analyzeSpatialAudio\<close>,
  \<^verbatim>\<open>detectMusicalStyle\<close>) and are left out. The band peaks are left out as well.
\<close>

definition processAudio :: "sample list \<times> int \<Rightarrow> director \<Rightarrow> (beat \<times> real) \<times> director" where
  "processAudio frame d =
     (let (b, d1) = detectBeat (snd frame) (d\<lparr>frequencyData := fst frame\<rparr>);
          (tempo, d2) = calculateTempo d1
      in ((b, tempo), d2))"

text \<open>The director after a sequence of frames, each with its clock reading.\<close>

fun processAll :: "director \<Rightarrow> (sample list \<times> int) list \<Rightarrow> director" where
  "processAll d [] = d"
| "processAll d (f # fs) = processAll (snd (processAudio f d)) fs"

text \<open>The times of the beats flagged along a sequence of frames, oldest first.\<close>

fun acceptedBeats :: "director \<Rightarrow> (sample list \<times> int) list \<Rightarrow> int list" where
  "acceptedBeats d [] = []"
| "acceptedBeats d (f # fs) =
     (if detected (fst (fst (processAudio f d))) then [snd f] else [])
       @ acceptedBeats (snd (processAudio f d)) fs"

text \<open>
  Every time of the list is more than 300 ms after the one before it, the first one after
  \<open>t\<close>.
\<close>

fun refractory :: "int \<Rightarrow> int list \<Rightarrow> bool" where
  "refractory t [] = True"
| "refractory t (t' # ts) = (t' - t > 300 \<and> refractory t' ts)"

text \<open>
  Test input: a buffer of silent bins, a buffer at 0 dB, and a run of a fresh director
  over ten silent frames, four loud frames ten seconds apart and three more silent frames.
\<close>

definition silence :: "sample list" where
  "silence = replicate 2048 NegInf"

definition click :: "sample list" where
  "click = replicate 2048 (Fin 0)"

definition sparseClicks :: "(sample list \<times> int) list" where
  "sparseClicks =
     map (\<lambda>t. (silence, t)) [100, 200, 300, 400, 500, 600, 700, 800, 900, 1000]
     @ map (\<lambda>t. (click, t)) [1100, 11100, 21100, 31100]
     @ map (\<lambda>t. (silence, t)) [31200, 31300, 31400]"

section \<open>AudioDrivenLevelGenerator\<close>

datatype band = Bass | LowMid | Mid | HighMid | Treble

record band_data =
  bandEnergyOf :: real
  bandPeak :: real
  bandDominance :: real

text \<open>The tables \<^verbatim>\<open>frequencyRanges\<close> and \<^verbatim>\<open>quadrantMapping\<close>.\<close>

fun rangeGeometry :: "band \<Rightarrow> string" where
  "rangeGeometry Bass = ''hypersphere''"
| "rangeGeometry LowMid = ''tesseract''"
| "rangeGeometry Mid = ''24cell''"
| "rangeGeometry HighMid = ''600cell''"
| "rangeGeometry Treble = ''120cell''"

fun rangeInteraction :: "band \<Rightarrow> string" where
  "rangeInteraction Bass = ''pulse''"
| "rangeInteraction LowMid = ''tap''"
| "rangeInteraction Mid = ''hold''"
| "rangeInteraction HighMid = ''swipe''"
| "rangeInteraction Treble = ''avoid''"

fun quadrantMapping :: "band \<Rightarrow> nat" where
  "quadrantMapping Bass = 3"
| "quadrantMapping LowMid = 1"
| "quadrantMapping Mid = 2"
| "quadrantMapping HighMid = 4"
| "quadrantMapping Treble = 0"

fun baseThresholds :: "band \<Rightarrow> real" where
  "baseThresholds Bass = 0.1"
| "baseThresholds LowMid = 0.15"
| "baseThresholds Mid = 0.2"
| "baseThresholds HighMid = 0.25"
| "baseThresholds Treble = 0.3"

fun subdivisions :: "band \<Rightarrow> real" where
  "subdivisions Bass = 1"
| "subdivisions LowMid = 0.5"
| "subdivisions Mid = 0.25"
| "subdivisions HighMid = 0.75"
| "subdivisions Treble = 2"

datatype dynamics_trend = Stable | Building | Dropping

text \<open>
  The analysis of one frame that \<^verbatim>\<open>generateEventsFromAudio\<close> receives: the bands in
  the order of \<^verbatim>\<open>Object.entries\<close>, the rhythm data and the dynamics.
\<close>

record analysis =
  frequencies :: "(band \<times> band_data) list"
  onsets :: "(real \<times> real) list"
  rhythmTempo :: real
  currentLevel :: real
  dynamicsTrend :: dynamics_trend

text \<open>A \<^verbatim>\<open>geometry_spawn\<close> event, without its \<^verbatim>\<open>audioSource\<close> and
  \<^verbatim>\<open>visualParams\<close> objects.\<close>

record geometry_spawn =
  geometry :: string
  interaction :: string
  quadrant :: nat
  spawnEnergy :: real
  spawnPeak :: real
  spawnTime :: real
  difficulty :: real
  telegraphDuration :: real

text \<open>
  The events of the queue: band events and the three kinds of special event (with the
  quadrant where it is a number, and the spawn time).
\<close>

datatype event =
    GeometrySpawn geometry_spawn
  | BeatEvent real nat real
  | IntensityBuildup real
  | SilenceEvent real

fun eventSpawnTime :: "event \<Rightarrow> real" where
  "eventSpawnTime (GeometrySpawn e) = spawnTime e"
| "eventSpawnTime (BeatEvent s q t) = t"
| "eventSpawnTime (IntensityBuildup t) = t"
| "eventSpawnTime (SilenceEvent t) = t"

record generator =
  adaptivesDifficulty :: real
  segmentQueue :: "event list"

definition newGenerator :: generator where
  "newGenerator = \<lparr>adaptivesDifficulty = 1, segmentQueue = []\<rparr>"

text \<open>
  \<^verbatim>\<open>createEventFromBand\<close> and \<^verbatim>\<open>generateSpecialEvents\<close> call three methods
  that the class does not define. Two of them are parameters of the model:
  \<^verbatim>\<open>calculateEventDifficulty\<close> and \<^verbatim>\<open>selectQuadrantForBeat\<close>; so is the
  difficulty-dependent lead time that the third one starts from.
\<close>

record helpers =
  calculateEventDifficulty :: "band_data \<Rightarrow> real \<Rightarrow> real"
  selectQuadrantForBeat :: "analysis \<Rightarrow> nat"
  leadTime :: "real \<Rightarrow> real"

text \<open>The configured warning time, \<^verbatim>\<open>config.telegraphDuration\<close> of the telegraph
  system.\<close>

definition configTelegraphDuration :: real where
  "configTelegraphDuration = 3000"

text \<open>
  Modelled from the spec: \<^verbatim>\<open>calculateTelegraphDuration\<close>, which
  \<^verbatim>\<open>createEventFromBand\<close> calls and no file of the repository defines. The spec
  says that the telegraph duration is always at least 3000 ms regardless of difficulty,
  and that the minimum telegraph duration (3000 ms) is a configuration constant: the
  duration is a difficulty-dependent lead time, raised to that minimum.
\<close>

definition calculateTelegraphDuration :: "helpers \<Rightarrow> real \<Rightarrow> real" where
  "calculateTelegraphDuration hp d = max configTelegraphDuration (leadTime hp d)"

definition getThresholdForBand :: "generator \<Rightarrow> band \<Rightarrow> real" where
  "getThresholdForBand g bandName = baseThresholds bandName * adaptivesDifficulty g"

definition calculateSpawnDelay :: "band \<Rightarrow> analysis \<Rightarrow> real" where
  "calculateSpawnDelay bandName a =
     (let beatInterval = 60000 / rhythmTempo a in beatInterval * subdivisions bandName)"

text \<open>\<^verbatim>\<open>createEventFromBand\<close>; \<open>now\<close> is the reading of \<^verbatim>\<open>Date.now()\<close>.\<close>

definition createEventFromBand ::
  "helpers \<Rightarrow> real \<Rightarrow> generator \<Rightarrow> band \<Rightarrow> band_data \<Rightarrow> analysis \<Rightarrow> geometry_spawn" where
  "createEventFromBand hp now g bandName bandData a =
     (let spawnDelay = calculateSpawnDelay bandName a;
          dif = calculateEventDifficulty hp bandData (adaptivesDifficulty g)
      in \<lparr>geometry = rangeGeometry bandName, interaction = rangeInteraction bandName,
          quadrant = quadrantMapping bandName, spawnEnergy = bandEnergyOf bandData,
          spawnPeak = bandPeak bandData, spawnTime = now + spawnDelay, difficulty = dif,
          telegraphDuration = calculateTelegraphDuration hp dif\<rparr>)"

definition bandEvents :: "helpers \<Rightarrow> real \<Rightarrow> generator \<Rightarrow> analysis \<Rightarrow> event list" where
  "bandEvents hp now g a =
     map (\<lambda>(bandName, bandData). GeometrySpawn (createEventFromBand hp now g bandName bandData a))
       (filter (\<lambda>(bandName, bandData). bandEnergyOf bandData > getThresholdForBand g bandName)
          (frequencies a))"

definition generateSpecialEvents :: "helpers \<Rightarrow> real \<Rightarrow> analysis \<Rightarrow> event list" where
  "generateSpecialEvents hp now a =
     map (\<lambda>(t, s). BeatEvent s (selectQuadrantForBeat hp a) t)
        (filter (\<lambda>(t, s). s > 0.8) (onsets a))
     @ (if dynamicsTrend a = Building \<and> currentLevel a > 0.7
        then [IntensityBuildup (now + 1000)] else [])
     @ (if currentLevel a < 0.1 then [SilenceEvent (now + 500)] else [])"

text \<open>\<^verbatim>\<open>calculateRecentPerformance\<close> over the outcomes of the recent hits.\<close>

definition calculateRecentPerformance :: "bool list \<Rightarrow> real" where
  "calculateRecentPerformance recentHits =
     (if length recentHits = 0 then 0.5
      else real (length (filter (\<lambda>h. h) recentHits)) / real (length recentHits))"

definition adaptDifficulty :: "real \<Rightarrow> real \<Rightarrow> real" where
  "adaptDifficulty recentPerformance d =
     (if recentPerformance > 0.8 then min 3.0 (d * 1.05)
      else if recentPerformance < 0.5 then max 0.5 (d * 0.95)
      else d)"

fun scaleEvent :: "real \<Rightarrow> event \<Rightarrow> event" where
  "scaleEvent m (GeometrySpawn e) =
     (if difficulty e \<noteq> 0 then GeometrySpawn (e\<lparr>difficulty := difficulty e * m\<rparr>)
      else GeometrySpawn e)"
| "scaleEvent m ev = ev"

definition scaleDifficultyBasedOnPerformance ::
  "bool list \<Rightarrow> event list \<Rightarrow> generator \<Rightarrow> event list \<times> generator" where
  "scaleDifficultyBasedOnPerformance recentHits events g =
     (let g1 = g\<lparr>adaptivesDifficulty :=
                  adaptDifficulty (calculateRecentPerformance recentHits) (adaptivesDifficulty g)\<rparr>
      in (map (scaleEvent (adaptivesDifficulty g1)) events, g1))"

text \<open>\<^verbatim>\<open>queueEvents\<close>: the events are appended and the queue is sorted by spawn time
  (\<^verbatim>\<open>Array.prototype.sort\<close> is stable).\<close>

definition queueEvents :: "event list \<Rightarrow> generator \<Rightarrow> generator" where
  "queueEvents events g = g\<lparr>segmentQueue := sort_key eventSpawnTime (segmentQueue g @ events)\<rparr>"

definition generateEventsFromAudio ::
  "helpers \<Rightarrow> real \<Rightarrow> bool list \<Rightarrow> analysis \<Rightarrow> generator \<Rightarrow> generator" where
  "generateEventsFromAudio hp now recentHits a g =
     (let events = bandEvents hp now g a @ generateSpecialEvents hp now a;
          (scaled, g1) = scaleDifficultyBasedOnPerformance recentHits events g
      in queueEvents scaled g1)"

text \<open>The band events of a queue.\<close>

fun spawns :: "event list \<Rightarrow> geometry_spawn list" where
  "spawns [] = []"
| "spawns (GeometrySpawn e # evs) = e # spawns evs"
| "spawns (ev # evs) = spawns evs"

text \<open>The generator after a sequence of analysed frames, each with its clock reading and
  the recent hits of the player.\<close>

fun generateAll ::
  "helpers \<Rightarrow> generator \<Rightarrow> (real \<times> bool list \<times> analysis) list \<Rightarrow> generator" where
  "generateAll hp g [] = g"
| "generateAll hp g ((now, hits, a) # rest) =
     generateAll hp (generateEventsFromAudio hp now hits a g) rest"

text \<open>
  Test input: helper functions (a difficulty that is energy times multiplier, a lead time
  that shrinks with difficulty), and the analysis of a frame with a strong bass band and a
  weak mid band at 120 BPM.
\<close>

definition sampleHelpers :: helpers where
  "sampleHelpers =
     \<lparr>calculateEventDifficulty = (\<lambda>bd m. bandEnergyOf bd * m),
      selectQuadrantForBeat = (\<lambda>a. 0), leadTime = (\<lambda>d. 5000 - 1000 * d)\<rparr>"

definition sampleAnalysis :: analysis where
  "sampleAnalysis =
     \<lparr>frequencies = [(Bass, \<lparr>bandEnergyOf = 0.9, bandPeak = 1, bandDominance = 1\<rparr>),
                     (Mid, \<lparr>bandEnergyOf = 0.15, bandPeak = 1, bandDominance = 0\<rparr>)],
      onsets = [], rhythmTempo = 120, currentLevel = 0.5, dynamicsTrend = Stable\<rparr>"

section \<open>Spectral centroid\<close>

text \<open>The value of a centroid: a finite number or NaN.\<close>

datatype jsnum = Num real | NaN

text \<open>\<^verbatim>\<open>x || d\<close> on numbers: 0 and NaN are falsy.\<close>

fun js_or :: "jsnum \<Rightarrow> real \<Rightarrow> real" where
  "js_or NaN d = d"
| "js_or (Num x) d = (if x = 0 then d else x)"

text \<open>The loop of both centroid functions: the two sums over the bins from index \<open>i\<close>
  on, with the weight of a bin given by \<open>w\<close>.\<close>

fun centroidSums :: "(nat \<Rightarrow> real) \<Rightarrow> nat \<Rightarrow> sample list \<Rightarrow> real \<times> real" where
  "centroidSums w i [] = (0, 0)"
| "centroidSums w i (x # xs) =
     (let (numerator, denominator) = centroidSums w (Suc i) xs
      in (w i * magnitude x + numerator, magnitude x + denominator))"

text \<open>
  \<^verbatim>\<open>calculateSpectralCentroid\<close> of the director: the weight of bin \<open>i\<close> is its
  frequency. When the power of a bin overflows, the denominator is \<^verbatim>\<open>Infinity\<close>
  and passes the guard \<^verbatim>\<open>denominator > 0\<close>, the numerator is \<^verbatim>\<open>Infinity\<close> or
  NaN, and the quotient is NaN.
\<close>

definition calculateSpectralCentroid :: "director \<Rightarrow> jsnum" where
  "calculateSpectralCentroid d =
     (let (numerator, denominator) =
            centroidSums (\<lambda>i. real i * (sampleRate d / 2) / real (length (frequencyData d))) 0
              (frequencyData d)
      in if list_ex overflows (frequencyData d) then NaN
         else if denominator > 0 then Num (numerator / denominator) else Num 440)"

section \<open>AudioReactiveParticleSystem\<close>

record audio_params =
  bassEnergy :: real
  midEnergy :: real
  highEnergy :: real
  beatStrength :: real
  paramCentroid :: jsnum
  paramTempo :: real

definition newAudioParams :: audio_params where
  "newAudioParams =
     \<lparr>bassEnergy = 0, midEnergy = 0, highEnergy = 0, beatStrength = 0, paramCentroid = Num 0,
      paramTempo = 120\<rparr>"

definition calculateBandEnergy :: "sample list \<Rightarrow> nat \<Rightarrow> nat \<Rightarrow> real" where
  "calculateBandEnergy fd startBin endBin =
     sum_list (map magnitude (take (endBin - startBin) (drop startBin fd)))
       / real (endBin - startBin)"

text \<open>\<^verbatim>\<open>calculateSpectralCentroid\<close> of the particle system: the weight of bin \<open>i\<close>
  is its index, and the value on a zero denominator is 0. An overflowing bin gives NaN
  as in the director.\<close>

definition particleSpectralCentroid :: "sample list \<Rightarrow> jsnum" where
  "particleSpectralCentroid fd =
     (let (numerator, denominator) = centroidSums (\<lambda>i. real i) 0 fd
      in if list_ex overflows fd then NaN
         else if denominator > 0 then Num (numerator / denominator) else Num 0)"

text \<open>\<^verbatim>\<open>updateAudioParameters\<close>. The object that \<^verbatim>\<open>getBeatInfo\<close> returns has no
  \<^verbatim>\<open>strength\<close>, so the beat strength is 0.\<close>

definition updateAudioParameters :: "int \<Rightarrow> director \<Rightarrow> audio_params \<Rightarrow> audio_params" where
  "updateAudioParameters now d p =
     (let fd = frequencyData d;
          beatInfo = getBeatInfo now d
      in \<lparr>bassEnergy = calculateBandEnergy fd 0 64, midEnergy = calculateBandEnergy fd 64 512,
          highEnergy = calculateBandEnergy fd 512 1024, beatStrength = 0,
          paramCentroid = particleSpectralCentroid fd,
          paramTempo = js_or (Num (bpm beatInfo)) 120\<rparr>)"

section \<open>The director's analysis for the integration layer\<close>

definition variance :: "real list \<Rightarrow> real" where
  "variance xs =
     (let mean = sum_list xs / real (length xs)
      in sum_list (map (\<lambda>x. (x - mean)\<^sup>2) xs) / real (length xs))"

definition analyzeRhythmComplexity :: "director \<Rightarrow> real" where
  "analyzeRhythmComplexity d =
     (if length (beatHistory d) < 4 then 0.5
      else min 1.0 (variance (intervals (beatHistory d)) / 10000))"

definition calculateEnergyVariance :: "director \<Rightarrow> real" where
  "calculateEnergyVariance d =
     (if length (energyHistory d) < 10 then 0.1
      else variance (map snd (js_slice_from (- 10) (energyHistory d))))"

definition activeBands :: "bands \<Rightarrow> nat" where
  "activeBands b =
     length (filter (\<lambda>e. e > 0.1)
       [subBass b, bass b, lowMid b, mid b, highMid b, presence b, brilliance b])"

definition calculateAudioComplexity :: "director \<Rightarrow> real" where
  "calculateAudioComplexity d =
     (let rhythm = analyzeRhythmComplexity d;
          spectralComplexity = real (activeBands (analyzeFrequencyBands d)) / 7;
          dynamicComplexity = min 1.0 (calculateEnergyVariance d / 0.1);
          complexity = (spectralComplexity + rhythm + dynamicComplexity) / 3
      in max 0.1 (min 2.0 complexity))"

text \<open>What \<^verbatim>\<open>getCurrentAnalysis\<close> returns, without the pitch and the bandwidth.\<close>

record audio_data =
  dataBass :: real
  dataMid :: real
  dataTreble :: real
  totalEnergy :: real
  complexityScore :: real
  dataCentroid :: jsnum
  dataBeat :: beat
  rhythmComplexity :: real

text \<open>\<^verbatim>\<open>getCurrentAnalysis\<close> runs \<^verbatim>\<open>detectBeat\<close> once more, with its own reading
  of the clock, before the other measures are taken.\<close>

definition getCurrentAnalysis :: "int \<Rightarrow> director \<Rightarrow> audio_data \<times> director" where
  "getCurrentAnalysis now d =
     (let frequencyBands = analyzeFrequencyBands d;
          (b, d1) = detectBeat now d
      in (\<lparr>dataBass = bass frequencyBands, dataMid = mid frequencyBands,
           dataTreble = presence frequencyBands + brilliance frequencyBands,
           totalEnergy = calculateTotalEnergy d1,
           complexityScore = calculateAudioComplexity d1,
           dataCentroid = calculateSpectralCentroid d1, dataBeat = b,
           rhythmComplexity = analyzeRhythmComplexity d1\<rparr>, d1))"

section \<open>CorrectedVIB34DIntegration\<close>

record coherence_state =
  beatPhase :: real
  harmonicPhases :: "real list"
  energyBass :: real
  energyMid :: real
  energyTreble :: real
  energyTotal :: real
  spectralCentroid :: real
  tempo :: real

text \<open>
  The integration layer: the coherence state, the values last forwarded for the visualizer
  parameters and for the visual feedback parameters, and the calls made to
  \<^verbatim>\<open>window.updateParameter\<close>, oldest first.
\<close>

record integration =
  coherenceState :: coherence_state
  currentParams :: "string \<rightharpoonup> real"
  currentVisualFeedback :: "string \<rightharpoonup> real"
  sinkCalls :: "(string \<times> real) list"

definition newIntegration :: integration where
  "newIntegration =
     \<lparr>coherenceState =
        \<lparr>beatPhase = 0, harmonicPhases = [0, 0, 0], energyBass = 0, energyMid = 0,
         energyTreble = 0, energyTotal = 0, spectralCentroid = 440, tempo = 120\<rparr>,
      currentParams = map_of
        [(''rot4dXW'', 0), (''rot4dYW'', 0), (''rot4dZW'', 0), (''gridDensity'', 50),
         (''morphFactor'', 0.5), (''chaos'', 0.5), (''speed'', 1.0), (''hue'', 0.5),
         (''intensity'', 0.5), (''saturation'', 0.5), (''geometry'', 0)],
      currentVisualFeedback = map_of
        [(''lineThickness'', 1.0), (''strokeIntensity'', 0.5), (''wireframeMode'', 0),
         (''moireFrequency'', 0), (''glitchIntensity'', 0), (''offsetShift'', 0),
         (''glassOpacity'', 0.8), (''blurRadius'', 0), (''refractionIndex'', 1.0),
         (''densityMultiplier'', 1.0), (''pulseAmplitude'', 0), (''breathingRate'', 1.0),
         (''parallaxDepth'', 0), (''layerSeparation'', 0), (''depthBias'', 0)],
      sinkCalls = []\<rparr>"

definition updateCoherenceState :: "audio_data \<Rightarrow> beat_info \<Rightarrow> integration \<Rightarrow> integration" where
  "updateCoherenceState audioData beatInfo s =
     (let phase = (real_of_int (infoTimeSinceLastBeat beatInfo) / (60000 / bpm beatInfo)) * pi * 2
      in s\<lparr>coherenceState :=
            \<lparr>beatPhase = phase, harmonicPhases = [phase * 2, phase * 1.5, phase * 1.25],
             energyBass = js_or (Num (dataBass audioData)) 0,
             energyMid = js_or (Num (dataMid audioData)) 0,
             energyTreble = js_or (Num (dataTreble audioData)) 0,
             energyTotal = js_or (Num (totalEnergy audioData)) 0,
             spectralCentroid = js_or (dataCentroid audioData) 440,
             tempo = js_or (Num (bpm beatInfo)) 120\<rparr>\<rparr>)"

text \<open>The remainder operator \<^verbatim>\<open>%\<close> on numbers: the quotient is truncated towards zero,
  so the result has the sign of the dividend.\<close>

definition js_rem :: "real \<Rightarrow> real \<Rightarrow> real" where
  "js_rem x y = x - y * real_of_int (if x / y < 0 then \<lceil>x / y\<rceil> else \<lfloor>x / y\<rfloor>)"

text \<open>\<^verbatim>\<open>calculateCoherentParameters\<close>: the entries of the returned object, in its
  order.\<close>

definition calculateCoherentParameters :: "audio_data \<Rightarrow> integration \<Rightarrow> (string \<times> real) list" where
  "calculateCoherentParameters audioData s =
     (let c = coherenceState s;
          complexity = js_or (Num (complexityScore audioData)) 0.5
      in [(''rot4dXW'', sin (beatPhase c) * energyBass c * 2),
          (''rot4dYW'', cos (beatPhase c * 1.5) * energyMid c * 2),
          (''rot4dZW'', sin (beatPhase c * 0.7) * energyTreble c * 2),
          (''gridDensity'', max 5 (min 100 (30 + energyTotal c * 50))),
          (''morphFactor'', 0.3 + sin (harmonicPhases c ! 0) * 0.4),
          (''chaos'', min 1.0 complexity),
          (''speed'', max 0.1 (min 3.0 (tempo c / 120))),
          (''hue'', js_rem (log 2 (spectralCentroid c / 440) * 0.1 + 0.5) 1),
          (''intensity'', 0.4 + energyTotal c * 0.6),
          (''saturation'', 0.6 + energyTotal c * 0.4),
          (''geometry'', real_of_int \<lfloor>min 8 (complexity * 8)\<rfloor>)])"

text \<open>\<^verbatim>\<open>calculateVisualFeedbackEffects\<close>; \<open>rnd\<close> is the value that
  \<^verbatim>\<open>Math.random()\<close> returns.\<close>

definition calculateVisualFeedbackEffects ::
  "real \<Rightarrow> audio_data \<Rightarrow> integration \<Rightarrow> (string \<times> real) list" where
  "calculateVisualFeedbackEffects rnd audioData s =
     (let c = coherenceState s;
          complexity = js_or (Num (complexityScore audioData)) 0
      in [(''lineThickness'', 0.5 + energyBass c * 2.5 + energyTotal c * 2.0),
          (''strokeIntensity'', 0.3 + energyMid c * 0.7),
          (''wireframeMode'', if complexity > 0.7 then 1 else 0),
          (''moireFrequency'',
             max 0 (min 100 (spectralCentroid c / 100 + sin (beatPhase c * 4) * 20))),
          (''glitchIntensity'',
             min 1.0 (if energyTotal c > 0.8 then energyTotal c * rnd * 0.5 else 0)),
          (''offsetShift'', sin (harmonicPhases c ! 1) * 0.3),
          (''glassOpacity'', max 0.2 (min 1.0 (1.0 - energyTotal c * 0.6))),
          (''blurRadius'', energyTreble c * 15),
          (''refractionIndex'', 1.0 + sin (beatPhase c) * 0.2),
          (''densityMultiplier'', 1.0 + sin (beatPhase c) * 0.5 + energyTotal c * 1.5),
          (''pulseAmplitude'', energyTotal c * 1.5),
          (''breathingRate'', max 0.5 (min 5.0 (tempo c / 30))),
          (''parallaxDepth'', energyBass c * 8),
          (''layerSeparation'', energyMid c * 3 + complexity * 2),
          (''depthBias'', sin (harmonicPhases c ! 2) * 0.8)])"

text \<open>\<^verbatim>\<open>updateVIB34DParameters\<close>: an entry is forwarded, and stored, when its value is
  not identical (\<^verbatim>\<open>!==\<close>) to the stored one.\<close>

fun updateVIB34DParameters :: "(string \<times> real) list \<Rightarrow> integration \<Rightarrow> integration" where
  "updateVIB34DParameters [] s = s"
| "updateVIB34DParameters ((param, v) # rest) s =
     updateVIB34DParameters rest
       (if currentParams s param \<noteq> Some v
        then s\<lparr>sinkCalls := sinkCalls s @ [(param, v)],
               currentParams := (currentParams s)(param \<mapsto> v)\<rparr>
        else s)"

fun updateVisualFeedbackParameters :: "(string \<times> real) list \<Rightarrow> integration \<Rightarrow> integration" where
  "updateVisualFeedbackParameters [] s = s"
| "updateVisualFeedbackParameters ((param, v) # rest) s =
     updateVisualFeedbackParameters rest
       (if currentVisualFeedback s param \<noteq> Some v
        then s\<lparr>sinkCalls := sinkCalls s @ [(param, v)],
               currentVisualFeedback := (currentVisualFeedback s)(param \<mapsto> v)\<rparr>
        else s)"

section \<open>The pipeline\<close>

text \<open>
  A frame is the content of the frequency buffer. One tick runs the director's loop on the
  frame and then the integration layer's update cycle. The code reads the clock three times
  on the way: in the \<^verbatim>\<open>detectBeat\<close> of the director's loop, in the
  \<^verbatim>\<open>detectBeat\<close> of \<^verbatim>\<open>getCurrentAnalysis\<close> and in \<^verbatim>\<open>getBeatInfo\<close>. It draws
  one random number, for the glitch intensity.
\<close>

record clock =
  loopNow :: int
  analysisNow :: int
  infoNow :: int

record pipeline =
  pDirector :: director
  pIntegration :: integration

definition newPipeline :: "real \<Rightarrow> pipeline" where
  "newPipeline rate = \<lparr>pDirector = newDirector rate, pIntegration = newIntegration\<rparr>"

definition tick :: "sample list \<Rightarrow> clock \<Rightarrow> real \<Rightarrow> pipeline \<Rightarrow> pipeline" where
  "tick frame ck rnd p =
     (let d1 = snd (processAudio (frame, loopNow ck) (pDirector p));
          (audioData, d2) = getCurrentAnalysis (analysisNow ck) d1;
          s1 = updateCoherenceState audioData (getBeatInfo (infoNow ck) d2) (pIntegration p);
          newParams = calculateCoherentParameters audioData s1;
          visualFeedback = calculateVisualFeedbackEffects rnd audioData s1;
          s2 = updateVisualFeedbackParameters visualFeedback (updateVIB34DParameters newParams s1)
      in \<lparr>pDirector = d2, pIntegration = s2\<rparr>)"

text \<open>The director's part of a tick.\<close>

definition tickDirector :: "sample list \<Rightarrow> clock \<Rightarrow> director \<Rightarrow> director" where
  "tickDirector frame ck d =
     snd (getCurrentAnalysis (analysisNow ck) (snd (processAudio (frame, loopNow ck) d)))"

text \<open>The coherence states after each tick of a run; tick \<open>i\<close> draws the random number
  \<open>rnd i\<close>.\<close>

fun coherenceRun ::
  "pipeline \<Rightarrow> nat \<Rightarrow> (nat \<Rightarrow> real) \<Rightarrow> (sample list \<times> clock) list \<Rightarrow> coherence_state list" where
  "coherenceRun p i rnd [] = []"
| "coherenceRun p i rnd ((frame, ck) # rest) =
     (let p1 = tick frame ck (rnd i) p
      in coherenceState (pIntegration p1) # coherenceRun p1 (Suc i) rnd rest)"

text \<open>Test input: a source of random numbers that always returns 0, and a clock whose
  three readings in a tick are the same.\<close>

definition zeroRandom :: "nat \<Rightarrow> real" where
  "zeroRandom i = 0"

definition clockAt :: "int \<Rightarrow> clock" where
  "clockAt t = \<lparr>loopNow = t, analysisNow = t, infoNow = t\<rparr>"

text \<open>
  Test input. An analysis with band energies above 1 read a quarter of a beat after the
  last beat at 60 BPM, and the analysis of a silent frame read three eighths of a beat
  after the last beat at 150 BPM. A frequency buffer whose only sounding bin is bin 1.
\<close>

definition loudData :: audio_data where
  "loudData =
     \<lparr>dataBass = 4, dataMid = 0, dataTreble = 0, totalEnergy = 2, complexityScore = 0.5,
      dataCentroid = Num 440,
      dataBeat = \<lparr>detected = False, strength = 0, confidence = 0, timeSinceLastBeat = 250\<rparr>,
      rhythmComplexity = 0.5\<rparr>"

definition quarterBeat :: beat_info where
  "quarterBeat =
     \<lparr>bpm = 60, infoLastBeatTime = 0, infoTimeSinceLastBeat = 250, infoBeatHistory = []\<rparr>"

definition quietData :: audio_data where
  "quietData =
     \<lparr>dataBass = 0, dataMid = 0, dataTreble = 0, totalEnergy = 0, complexityScore = 0.5,
      dataCentroid = Num 440,
      dataBeat = \<lparr>detected = False, strength = 0, confidence = 0, timeSinceLastBeat = 150\<rparr>,
      rhythmComplexity = 0.5\<rparr>"

text \<open>The same silent analysis with a spectral centroid of 6.875 Hz.\<close>

definition lowData :: audio_data where
  "lowData = quietData\<lparr>dataCentroid := Num 6.875\<rparr>"

definition threeEighthsBeat :: beat_info where
  "threeEighthsBeat =
     \<lparr>bpm = 150, infoLastBeatTime = 0, infoTimeSinceLastBeat = 150, infoBeatHistory = []\<rparr>"

definition oneBin :: "sample list" where
  "oneBin = NegInf # Fin 0 # replicate 2046 NegInf"

section \<open>Pitch detection and MathematicallyCoherentVisualSystem\<close>

text \<open>
  A double that may be infinite or NaN. The operations below take a finite second operand
  and follow IEEE 754 on the special values; on finite numbers they are exact. The sign of
  a zero is not modelled: a zero divisor is \<open>+0\<close>.
\<close>

datatype jsval = Finite real | PosInfinity | NegInfinity | NotANumber

fun js_divide :: "jsval \<Rightarrow> real \<Rightarrow> jsval" where
  "js_divide (Finite x) c =
     (if c = 0 then (if x = 0 then NotANumber else if x > 0 then PosInfinity else NegInfinity)
      else Finite (x / c))"
| "js_divide PosInfinity c = (if c < 0 then NegInfinity else PosInfinity)"
| "js_divide NegInfinity c = (if c < 0 then PosInfinity else NegInfinity)"
| "js_divide NotANumber c = NotANumber"

fun js_times :: "jsval \<Rightarrow> real \<Rightarrow> jsval" where
  "js_times (Finite x) c = Finite (x * c)"
| "js_times PosInfinity c =
     (if c = 0 then NotANumber else if c > 0 then PosInfinity else NegInfinity)"
| "js_times NegInfinity c =
     (if c = 0 then NotANumber else if c > 0 then NegInfinity else PosInfinity)"
| "js_times NotANumber c = NotANumber"

fun js_plus :: "jsval \<Rightarrow> real \<Rightarrow> jsval" where
  "js_plus (Finite x) c = Finite (x + c)"
| "js_plus v c = v"

fun js_log2 :: "jsval \<Rightarrow> jsval" where
  "js_log2 (Finite x) =
     (if x > 0 then Finite (log 2 x) else if x = 0 then NegInfinity else NotANumber)"
| "js_log2 PosInfinity = PosInfinity"
| "js_log2 v = NotANumber"

fun js_remainder :: "jsval \<Rightarrow> real \<Rightarrow> jsval" where
  "js_remainder (Finite x) c = (if c = 0 then NotANumber else Finite (js_rem x c))"
| "js_remainder v c = NotANumber"

text \<open>\<^verbatim>\<open>x || d\<close>: 0 and NaN are falsy, an infinite number is truthy.\<close>

fun js_or_val :: "jsval \<Rightarrow> real \<Rightarrow> jsval" where
  "js_or_val (Finite x) d = (if x = 0 then Finite d else Finite x)"
| "js_or_val NotANumber d = Finite d"
| "js_or_val v d = v"

text \<open>
  \<^verbatim>\<open>autocorrelate\<close> of the director, on the time-domain buffer: the correlation at an
  offset is the sum of \<^verbatim>\<open>buffer[i] * buffer[i + offset]\<close> over \<open>i < length - offset\<close>,
  the offsets run below half the length, and a later offset wins only with a strictly
  greater correlation.
\<close>

definition correlation :: "real list \<Rightarrow> nat \<Rightarrow> real" where
  "correlation buffer offset = sum_list (map2 (*) buffer (drop offset buffer))"

definition betterOffset :: "real list \<Rightarrow> nat \<times> real \<Rightarrow> nat \<Rightarrow> nat \<times> real" where
  "betterOffset buffer best offset =
     (if correlation buffer offset > snd best then (offset, correlation buffer offset)
      else best)"

definition autocorrelate :: "real list \<Rightarrow> nat" where
  "autocorrelate buffer =
     fst (foldl (betterOffset buffer) (0, 0) [0..<(length buffer + 1) div 2])"

text \<open>
  The frequency of \<^verbatim>\<open>detectPitch\<close>: the sample rate divided by the offset that
  \<^verbatim>\<open>autocorrelate\<close> returns. The time-domain buffer \<^verbatim>\<open>this.timeData\<close> is an
  argument; the confidence and the note name are left out.
\<close>

definition detectPitch :: "real list \<Rightarrow> director \<Rightarrow> jsval" where
  "detectPitch timeData d = js_divide (Finite (sampleRate d)) (real (autocorrelate timeData))"

text \<open>The state \<^verbatim>\<open>unifiedMath\<close> of the coherent visual system, without the 3D
  rotations, the harmonic series, the bandwidth and the quadrant distribution.\<close>

record unified_math =
  rotationXW :: real
  rotationYW :: real
  rotationZW :: real
  phaseMaster :: real
  phaseHarmony :: "real list"
  phaseChaos :: real
  fundamental :: jsval
  mathCentroid :: jsnum
  mathBass :: real
  mathMid :: real
  mathTreble :: real
  mathTotal :: real
  mathBpm :: real
  mathBeatPhase :: real
  measurePhase :: real

definition newUnifiedMath :: unified_math where
  "newUnifiedMath =
     \<lparr>rotationXW = 0, rotationYW = 0, rotationZW = 0, phaseMaster = 0,
      phaseHarmony = [0, 0, 0], phaseChaos = 0, fundamental = Finite 440, mathCentroid = Num 0,
      mathBass = 0, mathMid = 0, mathTreble = 0, mathTotal = 0, mathBpm = 120,
      mathBeatPhase = 0, measurePhase = 0\<rparr>"

text \<open>
  \<^verbatim>\<open>updateUnifiedMathFromAudio\<close>. Its arguments are what \<^verbatim>\<open>getCurrentAnalysis\<close>
  and \<^verbatim>\<open>getBeatInfo\<close> return: the analysis, the frequency of its pitch entry, and the
  beat information.
\<close>

definition updateUnifiedMathFromAudio ::
  "audio_data \<Rightarrow> jsval \<Rightarrow> beat_info \<Rightarrow> unified_math \<Rightarrow> unified_math" where
  "updateUnifiedMathFromAudio audioData pitchFrequency beatInfo m =
     (let beats = real_of_int (infoTimeSinceLastBeat beatInfo) / (60000 / bpm beatInfo);
          master = beats * pi * 2;
          beatPhase = js_rem beats 1
      in \<lparr>rotationXW = dataBass audioData * 2, rotationYW = dataMid audioData * 2,
          rotationZW = dataTreble audioData * 2, phaseMaster = master,
          phaseHarmony = [master * 2, master * 1.5, master * 1.25],
          phaseChaos = complexityScore audioData * 0.5,
          fundamental = js_or_val pitchFrequency 440,
          mathCentroid = dataCentroid audioData,
          mathBass = dataBass audioData, mathMid = dataMid audioData,
          mathTreble = dataTreble audioData,
          mathTotal = dataBass audioData + dataMid audioData + dataTreble audioData,
          mathBpm = bpm beatInfo, mathBeatPhase = beatPhase,
          measurePhase = js_rem (beatPhase / 4) 1\<rparr>)"

text \<open>The shared transform \<^verbatim>\<open>frequencyToHue\<close>.\<close>

definition frequencyToHue :: "jsval \<Rightarrow> jsval" where
  "frequencyToHue freq = js_remainder (js_plus (js_times (js_log2 (js_divide freq 440)) 60) 240) 360"

fun jsnumValue :: "jsnum \<Rightarrow> jsval" where
  "jsnumValue (Num x) = Finite x"
| "jsnumValue NaN = NotANumber"

text \<open>
  \<^verbatim>\<open>updateVIB34DFromUnifiedMath\<close>: the entries of the parameter object handed to
  \<^verbatim>\<open>vib34d.updateParameters\<close>, in its order.
\<close>

definition updateVIB34DFromUnifiedMath :: "unified_math \<Rightarrow> (string \<times> jsval) list" where
  "updateVIB34DFromUnifiedMath m =
     [(''rotXW'', Finite (rotationXW m)),
      (''rotYW'', Finite (rotationYW m)),
      (''rotZW'', Finite (rotationZW m)),
      (''morphFactor'', Finite (0.5 * sin (phaseMaster m + 0) + 0.5)),
      (''intensity'', Finite (0.5 * (1 + mathTotal m))),
      (''hue'', frequencyToHue (fundamental m)),
      (''chaos'', Finite (phaseChaos m)),
      (''speed'', Finite (mathBpm m / 120)),
      (''gridDensity'', js_plus (js_times (jsnumValue (mathCentroid m)) 0.5) 0.5)]"

text \<open>Test input: a time-domain buffer of zeros, and a director whose frequency buffer is
  silent.\<close>

definition silentTime :: "real list" where
  "silentTime = replicate 2048 0"

definition silentDirector :: director where
  "silentDirector = (newDirector 44100)\<lparr>frequencyData := silence\<rparr>"

section \<open>Properties of the latency compensator\<close>

lemma timers_scheduleCompensatedEvent:
  "timers (scheduleCompensatedEvent cb d c) = timers c @ [(cb, max 0 (d + adaptiveOffset c))]"
  by (simp add: scheduleCompensatedEvent_def compensatedDelay_def)

text \<open>
  C10. Whatever delay is requested and whatever the adaptive offset is, the timer that
  \<^verbatim>\<open>scheduleCompensatedEvent\<close> installs has the delay
  \<open>max 0 (delay + adaptiveOffset)\<close>, which is never negative; the timers installed
  before are left as they were.
\<close>

theorem scheduleCompensatedEvent_nonneg:
  "timers (scheduleCompensatedEvent cb d c) = timers c @ [(cb, max 0 (d + adaptiveOffset c))]
   \<and> 0 \<le> snd (last (timers (scheduleCompensatedEvent cb d c)))"
  by (simp add: timers_scheduleCompensatedEvent)

lemma updateAdaptiveCompensation_measurements:
  "recentMeasurements (updateAdaptiveCompensation c) = recentMeasurements c"
  by (simp add: updateAdaptiveCompensation_def Let_def)

lemma updateAdaptiveCompensation_offset:
  "adaptiveOffset (updateAdaptiveCompensation c) =
     (if 10 \<le> length (recentMeasurements c) \<and> \<bar>trend (recentMeasurements c)\<bar> > 5
      then adaptiveOffset c - trend (recentMeasurements c) * learningRate
      else adaptiveOffset c)"
  by (simp add: updateAdaptiveCompensation_def Let_def)

lemma updates_measurements:
  "recentMeasurements (comp_run c (replicate n Update)) = recentMeasurements c"
  unfolding comp_run_def
  by (induction n arbitrary: c) (simp_all add: updateAdaptiveCompensation_measurements)

lemma updates_offset:
  assumes "10 \<le> length (recentMeasurements c)" "\<bar>trend (recentMeasurements c)\<bar> > 5"
  shows "adaptiveOffset (comp_run c (replicate n Update)) =
           adaptiveOffset c - real n * (trend (recentMeasurements c) * learningRate)"
  using assms unfolding comp_run_def
proof (induction n arbitrary: c)
  case 0
  then show ?case by simp
next
  case (Suc n)
  have "adaptiveOffset (foldl comp_step (updateAdaptiveCompensation c) (replicate n Update)) =
        adaptiveOffset (updateAdaptiveCompensation c)
          - real n * (trend (recentMeasurements (updateAdaptiveCompensation c)) * learningRate)"
    by (rule Suc.IH) (simp_all add: updateAdaptiveCompensation_measurements Suc.prems)
  then show ?case
    using Suc.prems
    by (simp add: updateAdaptiveCompensation_measurements updateAdaptiveCompensation_offset algebra_simps)
qed


lemma records_measurements:
  "length (recentMeasurements c) + n \<le> 100 \<Longrightarrow>
   recentMeasurements (comp_run c (replicate n (Record e a))) =
     recentMeasurements c @ replicate n (a - e)"
  unfolding comp_run_def
proof (induction n arbitrary: c)
  case 0
  then show ?case by simp
next
  case (Suc n)
  have step: "recentMeasurements (recordTimingMeasurement e a c) = recentMeasurements c @ [a - e]"
    using Suc.prems by (simp add: recordTimingMeasurement_def Let_def windowSize_def)
  have "recentMeasurements (foldl comp_step (recordTimingMeasurement e a c) (replicate n (Record e a)))
        = recentMeasurements (recordTimingMeasurement e a c) @ replicate n (a - e)"
    by (rule Suc.IH) (use Suc.prems step in simp)
  then show ?case
    by (simp add: step replicate_append_same)
qed

lemma records_offset:
  "adaptiveOffset (comp_run c (replicate n (Record e a))) = adaptiveOffset c"
  unfolding comp_run_def
  by (induction n arbitrary: c) (simp_all add: recordTimingMeasurement_def Let_def)

lemma trend_10_40: "trend (replicate 10 40) = 40"
  by (simp add: trend_def recentAvg_def oldAvg_def js_slice_def js_slice_from_def windowSize_def
      sum_list_replicate)

text \<open>
  C8, as stated, fails. A fresh compensator records ten measurements that are each 40 ms
  late; the interval timer then runs \<^verbatim>\<open>updateAdaptiveCompensation\<close> 76 times on
  the unchanged window. Every run subtracts 4 ms, and the stored offset ends at -304 ms,
  outside \<open>\<plusminus>300\<close> ms: no write clamps it.
\<close>

theorem adaptiveOffset_drift_counterexample:
  "adaptiveOffset (comp_run newCompensator (replicate 10 (Record 0 40) @ replicate 76 Update))
     = - 304
   \<and> \<not> \<bar>adaptiveOffset (comp_run newCompensator
             (replicate 10 (Record 0 40) @ replicate 76 Update))\<bar> \<le> 300"
proof -
  let ?c = "comp_run newCompensator (replicate 10 (Record 0 40))"
  have ms: "recentMeasurements ?c = replicate 10 40"
    using records_measurements [of newCompensator 10 0 40]
    by (simp add: newCompensator_def)
  have off: "adaptiveOffset ?c = 0"
    by (simp add: records_offset) (simp add: newCompensator_def)
  have "adaptiveOffset (comp_run ?c (replicate 76 Update)) = - 304"
    using updates_offset [of ?c 76]
    by (simp add: ms off trend_10_40 learningRate_def)
  moreover have "comp_run newCompensator (replicate 10 (Record 0 40) @ replicate 76 Update)
        = comp_run ?c (replicate 76 Update)"
    by (simp add: comp_run_def)
  ultimately show ?thesis by simp
qed

lemma length_js_slice_le:
  "length (js_slice (- int w * 2) (- int w) xs) \<le> min w (length xs)"
  by (auto simp add: js_slice_def Let_def min_def max_def)

lemma length_js_slice_from_le:
  "0 < w \<Longrightarrow> length (js_slice_from (- int w) xs) \<le> min w (length xs)"
  by (auto simp add: js_slice_from_def js_slice_def Let_def min_def max_def)

lemma set_js_slice: "set (js_slice b e xs) \<subseteq> set xs"
  unfolding js_slice_def Let_def
  by (meson set_take_subset set_drop_subset subset_trans)

lemma abs_sum_list_le:
  fixes xs :: "real list"
  assumes "\<forall>x\<in>set xs. \<bar>x\<bar> \<le> M"
  shows "\<bar>sum_list xs\<bar> \<le> real (length xs) * M"
  using assms by (induction xs) (auto simp add: algebra_simps)

lemma abs_window_mean_le:
  fixes xs :: "real list"
  assumes bnd: "\<forall>x\<in>set xs. \<bar>x\<bar> \<le> M" and len: "length xs \<le> k" and k: "0 < k"
    and M: "0 \<le> M"
  shows "\<bar>sum_list xs / real k\<bar> \<le> M"
proof -
  have "\<bar>sum_list xs\<bar> \<le> real (length xs) * M"
    by (rule abs_sum_list_le [OF bnd])
  also have "\<dots> \<le> real k * M"
    using M len by (auto intro: mult_right_mono)
  finally have "\<bar>sum_list xs\<bar> / real k \<le> M"
    using k by (simp add: field_simps)
  then show ?thesis using k by simp
qed

lemma abs_trend_le:
  assumes bnd: "\<forall>m\<in>set ms. \<bar>m\<bar> \<le> M" and len: "10 \<le> length ms"
  shows "\<bar>trend ms\<bar> \<le> 2 * M"
proof -
  have k: "0 < min windowSize (length ms)"
    using len by (cases ms) (simp_all add: windowSize_def)
  have M: "0 \<le> M"
    using bnd len by (cases ms) auto
  have r: "\<bar>recentAvg ms\<bar> \<le> M"
    unfolding recentAvg_def
  proof (rule abs_window_mean_le [OF _ _ k M])
    show "\<forall>x\<in>set (js_slice_from (- int windowSize) ms). \<bar>x\<bar> \<le> M"
      using bnd set_js_slice [of "- int windowSize" "int (length ms)" ms]
      by (auto simp add: js_slice_from_def)
    show "length (js_slice_from (- int windowSize) ms) \<le> min windowSize (length ms)"
      by (rule length_js_slice_from_le) (simp add: windowSize_def)
  qed
  have o: "\<bar>oldAvg ms\<bar> \<le> M"
    unfolding oldAvg_def
  proof (rule abs_window_mean_le [OF _ _ k M])
    show "\<forall>x\<in>set (js_slice (- int windowSize * 2) (- int windowSize) ms). \<bar>x\<bar> \<le> M"
      using bnd set_js_slice [of "- int windowSize * 2" "- int windowSize" ms] by auto
    show "length (js_slice (- int windowSize * 2) (- int windowSize) ms) \<le> min windowSize (length ms)"
      by (rule length_js_slice_le)
  qed
  show ?thesis
    unfolding trend_def using r o by linarith
qed

lemma trend_10_4: "trend (replicate 10 4) = 4"
  by (simp add: trend_def recentAvg_def oldAvg_def js_slice_def js_slice_from_def windowSize_def
      sum_list_replicate)

text \<open>
  C8, amended. The offset is not clamped. One run of \<^verbatim>\<open>updateAdaptiveCompensation\<close>
  subtracts \<open>0.1 * trend\<close> from the stored offset when at least 10 measurements are
  stored and \<open>\<bar>trend\<bar> > 5\<close>, and leaves the offset unchanged otherwise; when every
  stored timing error has magnitude at most \<open>M\<close>, that one run moves the offset by at
  most \<open>0.2 * M\<close>. \<^verbatim>\<open>recordTimingMeasurement\<close> does not touch the offset and
  \<^verbatim>\<open>enableEmergencyMode\<close> sets it to -100.
\<close>

theorem adaptiveOffset_update_step:
  assumes "0 \<le> M" and "\<forall>m\<in>set (recentMeasurements c). \<bar>m\<bar> \<le> M"
  shows "adaptiveOffset (updateAdaptiveCompensation c)
           = (if 10 \<le> length (recentMeasurements c) \<and> 5 < \<bar>trend (recentMeasurements c)\<bar>
              then adaptiveOffset c - 0.1 * trend (recentMeasurements c)
              else adaptiveOffset c)
         \<and> \<bar>adaptiveOffset (updateAdaptiveCompensation c) - adaptiveOffset c\<bar> \<le> 0.2 * M
         \<and> adaptiveOffset (recordTimingMeasurement e a c) = adaptiveOffset c
         \<and> adaptiveOffset (enableEmergencyMode c) = - 100"
proof -
  have "\<bar>adaptiveOffset (updateAdaptiveCompensation c) - adaptiveOffset c\<bar> \<le> 0.2 * M"
  proof (cases "10 \<le> length (recentMeasurements c) \<and> \<bar>trend (recentMeasurements c)\<bar> > 5")
    case True
    then have "\<bar>trend (recentMeasurements c)\<bar> \<le> 2 * M"
      using abs_trend_le [OF assms(2)] by simp
    then show ?thesis
      using True by (simp add: updateAdaptiveCompensation_offset learningRate_def abs_mult)
  next
    case False
    then show ?thesis
      using assms(1) by (auto simp add: updateAdaptiveCompensation_offset)
  qed
  then show ?thesis
    by (simp add: updateAdaptiveCompensation_offset learningRate_def
        recordTimingMeasurement_def enableEmergencyMode_def Let_def)
qed

text \<open>
  The witness has one state on each side of each guard: ten errors of 40 ms (the offset
  moves by -4), three errors of 4 ms (fewer than 10 measurements, no move) and ten errors
  of 4 ms (a trend of 4 ms, no move).
\<close>

theorem adaptiveOffset_update_step_witness:
  "(0::real) \<le> 40
   \<and> set (recentMeasurements (newCompensator\<lparr>recentMeasurements := replicate 10 40\<rparr>)) = {40}
   \<and> adaptiveOffset (updateAdaptiveCompensation
          (newCompensator\<lparr>recentMeasurements := replicate 10 40\<rparr>)) = - 4
   \<and> \<bar>adaptiveOffset (updateAdaptiveCompensation
          (newCompensator\<lparr>recentMeasurements := replicate 10 40\<rparr>))
        - adaptiveOffset (newCompensator\<lparr>recentMeasurements := replicate 10 40\<rparr>)\<bar> \<le> 0.2 * 40
   \<and> adaptiveOffset (updateAdaptiveCompensation
          (newCompensator\<lparr>recentMeasurements := [4, 4, 4]\<rparr>)) = 0
   \<and> adaptiveOffset (updateAdaptiveCompensation
          (newCompensator\<lparr>recentMeasurements := replicate 10 4\<rparr>)) = 0"
proof -
  let ?a = "newCompensator\<lparr>recentMeasurements := replicate 10 40\<rparr>"
  let ?b = "newCompensator\<lparr>recentMeasurements := [4, 4, 4]\<rparr>"
  let ?c = "newCompensator\<lparr>recentMeasurements := replicate 10 4\<rparr>"
  have h0: "(0::real) \<le> 40" by simp
  have ha: "\<forall>m\<in>set (recentMeasurements ?a). \<bar>m\<bar> \<le> 40" by simp
  have hb: "\<forall>m\<in>set (recentMeasurements ?b). \<bar>m\<bar> \<le> 40" by simp
  have hc: "\<forall>m\<in>set (recentMeasurements ?c). \<bar>m\<bar> \<le> 40" by simp
  have a: "adaptiveOffset (updateAdaptiveCompensation ?a) = - 4"
    using adaptiveOffset_update_step [OF h0 ha, of 0 0]
    by (simp add: trend_10_40) (simp add: newCompensator_def)
  have b: "adaptiveOffset (updateAdaptiveCompensation ?b) = 0"
    using adaptiveOffset_update_step [OF h0 hb, of 0 0]
    by (simp add: newCompensator_def)
  have c: "adaptiveOffset (updateAdaptiveCompensation ?c) = 0"
    using adaptiveOffset_update_step [OF h0 hc, of 0 0]
    by (simp add: trend_10_4) (simp add: newCompensator_def)
  have "adaptiveOffset ?a = 0" by (simp add: newCompensator_def)
  then show ?thesis
    using a b c by simp
qed

section \<open>Properties of the beat and tempo tracker\<close>

lemma detectBeat_lastBeatTime:
  "lastBeatTime (snd (detectBeat now d)) =
     (if detected (fst (detectBeat now d)) then now else lastBeatTime d)"
  by (simp add: detectBeat_def noBeat_def Let_def)

lemma detectBeat_gap:
  "detected (fst (detectBeat now d)) \<Longrightarrow> now - lastBeatTime d > 300"
  by (simp add: detectBeat_def noBeat_def Let_def split: if_splits)

lemma calculateTempo_lastBeatTime:
  "lastBeatTime (snd (calculateTempo d)) = lastBeatTime d"
  by (simp add: calculateTempo_def Let_def)

lemma processAudio_detected:
  "fst (fst (processAudio f d)) = fst (detectBeat (snd f) (d\<lparr>frequencyData := fst f\<rparr>))"
  by (simp add: processAudio_def Let_def case_prod_beta)

lemma processAudio_state:
  "snd (processAudio f d) =
     snd (calculateTempo (snd (detectBeat (snd f) (d\<lparr>frequencyData := fst f\<rparr>))))"
  by (simp add: processAudio_def Let_def case_prod_beta)

lemma processAudio_lastBeatTime:
  "lastBeatTime (snd (processAudio f d)) =
     (if detected (fst (fst (processAudio f d))) then snd f else lastBeatTime d)"
  using detectBeat_lastBeatTime [of "snd f" "d\<lparr>frequencyData := fst f\<rparr>"]
  by (simp add: processAudio_state processAudio_detected calculateTempo_lastBeatTime)

lemma processAudio_gap:
  "detected (fst (fst (processAudio f d))) \<Longrightarrow> snd f - lastBeatTime d > 300"
  using detectBeat_gap [of "snd f" "d\<lparr>frequencyData := fst f\<rparr>"]
  by (simp add: processAudio_detected)

text \<open>
  C2. Along any sequence of frames and clock readings, from any state of the tracker, each
  flagged beat is more than 300 ms after the beat flagged before it (and the first one more
  than 300 ms after the \<^verbatim>\<open>lastBeatTime\<close> the run starts with): no beat is accepted
  at a time \<open>t'\<close> with \<open>t' - t \<le> 300\<close>.
\<close>

theorem beats_refractory:
  "refractory (lastBeatTime d) (acceptedBeats d frames)"
proof (induction frames arbitrary: d)
  case Nil
  then show ?case by simp
next
  case (Cons f fs)
  show ?case
  proof (cases "detected (fst (fst (processAudio f d)))")
    case True
    then show ?thesis
      using Cons.IH [of "snd (processAudio f d)"] processAudio_gap [of f d]
      by (simp add: processAudio_lastBeatTime)
  next
    case False
    then show ?thesis
      using Cons.IH [of "snd (processAudio f d)"]
      by (simp add: processAudio_lastBeatTime)
  qed
qed

text \<open>
  The part of C5 that the code keeps: with four or more beats in the history, the stored
  tempo becomes the 0.8/0.2 blend, and the value \<^verbatim>\<open>calculateTempo\<close> returns is
  within 60..200.
\<close>

lemma calculateTempo_blend:
  "4 \<le> length (beatHistory d) \<Longrightarrow>
   currentBPM (snd (calculateTempo d))
     = 0.8 * currentBPM d + 0.2 * (60000 / avgInterval (beatHistory d))
   \<and> 60 \<le> fst (calculateTempo d) \<and> fst (calculateTempo d) \<le> 200"
  by (simp add: calculateTempo_def Let_def)

lemma energy_silence: "frequencyData d = silence \<Longrightarrow> calculateTotalEnergy d = 0"
  by (simp add: calculateTotalEnergy_def silence_def sum_list_replicate)

lemma underflowBound_less_1: "underflowBound < 1"
  by (simp add: underflowBound_def)

lemma magnitude_0dB: "magnitude (Fin 0) = 1"
  using underflowBound_less_1 by simp

lemma energy_click: "frequencyData d = click \<Longrightarrow> calculateTotalEnergy d = 1"
  by (simp add: calculateTotalEnergy_def click_def sum_list_replicate magnitude_0dB
      del: magnitude.simps)

lemma sparseClicks_bpm:
  "currentBPM (processAll (newDirector 44100) sparseClicks) = 32934 / 625"
  by (simp add: sparseClicks_def processAudio_def detectBeat_def noBeat_def calculateTempo_def
      avgInterval_def js_slice_from_def js_slice_def newDirector_def Let_def
      energy_silence energy_click)

text \<open>
  C5 at a failing input. A fresh director hears four beats ten seconds apart. Each pass of
  the loop blends the stored tempo towards 6 BPM, and three passes after the fourth beat
  the stored \<^verbatim>\<open>currentBPM\<close> is 52.6944: below 60, and read as it is by
  \<^verbatim>\<open>getCurrentBPM\<close> and \<^verbatim>\<open>getBeatInfo\<close>. Only the value returned by
  \<^verbatim>\<open>calculateTempo\<close> is clamped.
\<close>

theorem currentBPM_below_60:
  "currentBPM (processAll (newDirector 44100) sparseClicks) = 32934 / 625
   \<and> getCurrentBPM (processAll (newDirector 44100) sparseClicks) < 60
   \<and> bpm (getBeatInfo 31500 (processAll (newDirector 44100) sparseClicks)) < 60"
  by (simp add: getCurrentBPM_def getBeatInfo_def sparseClicks_bpm)

section \<open>Properties of the event generator\<close>

lemma baseThresholds_pos: "0 < baseThresholds b"
  by (cases b) simp_all

text \<open>
  C6, as stated, fails: the bass threshold is 0.05 at the multiplier 0.5 and 0.3 at the
  multiplier 3.0, so the threshold at the larger multiplier is not the lower one.
\<close>

theorem threshold_bass_counterexample:
  "getThresholdForBand (newGenerator\<lparr>adaptivesDifficulty := 0.5\<rparr>) Bass = 0.05
   \<and> getThresholdForBand (newGenerator\<lparr>adaptivesDifficulty := 3.0\<rparr>) Bass = 0.3
   \<and> \<not> getThresholdForBand (newGenerator\<lparr>adaptivesDifficulty := 3.0\<rparr>) Bass
        < getThresholdForBand (newGenerator\<lparr>adaptivesDifficulty := 0.5\<rparr>) Bass"
  by (simp add: getThresholdForBand_def)

text \<open>
  C6, amended. The threshold of a band is its base threshold times the multiplier, so it is
  strictly increasing in the multiplier: for \<open>d1 < d2\<close> the threshold at \<open>d2\<close>
  is the higher one, and a frame yields no more band events at \<open>d2\<close> than at
  \<open>d1\<close>.
\<close>

theorem threshold_increasing:
  assumes "d1 < d2"
  shows "getThresholdForBand (g\<lparr>adaptivesDifficulty := d1\<rparr>) b
           < getThresholdForBand (g\<lparr>adaptivesDifficulty := d2\<rparr>) b
         \<and> length (bandEvents hp now (g\<lparr>adaptivesDifficulty := d2\<rparr>) a)
             \<le> length (bandEvents hp now (g\<lparr>adaptivesDifficulty := d1\<rparr>) a)"
proof -
  have lt: "\<And>b. getThresholdForBand (g\<lparr>adaptivesDifficulty := d1\<rparr>) b
           < getThresholdForBand (g\<lparr>adaptivesDifficulty := d2\<rparr>) b"
    using assms baseThresholds_pos by (simp add: getThresholdForBand_def)
  have "length (filter (\<lambda>(bandName, bandData). bandEnergyOf bandData > getThresholdForBand (g\<lparr>adaptivesDifficulty := d2\<rparr>) bandName) xs)
      \<le> length (filter (\<lambda>(bandName, bandData). bandEnergyOf bandData > getThresholdForBand (g\<lparr>adaptivesDifficulty := d1\<rparr>) bandName) xs)" for xs
  proof (induction xs)
    case Nil
    then show ?case by simp
  next
    case (Cons x xs)
    obtain bn bd where x: "x = (bn, bd)" by (cases x)
    show ?case using Cons lt [of bn] by (auto simp add: x)
  qed
  then show ?thesis
    using lt by (simp add: bandEvents_def)
qed

theorem threshold_increasing_witness:
  "(0.5::real) < 3.0
   \<and> getThresholdForBand (newGenerator\<lparr>adaptivesDifficulty := 0.5\<rparr>) Treble
       < getThresholdForBand (newGenerator\<lparr>adaptivesDifficulty := 3.0\<rparr>) Treble
   \<and> length (bandEvents sampleHelpers 1000 (newGenerator\<lparr>adaptivesDifficulty := 3.0\<rparr>)
         sampleAnalysis)
       \<le> length (bandEvents sampleHelpers 1000 (newGenerator\<lparr>adaptivesDifficulty := 0.5\<rparr>)
         sampleAnalysis)
   \<and> length (bandEvents sampleHelpers 1000 (newGenerator\<lparr>adaptivesDifficulty := 3.0\<rparr>)
         sampleAnalysis) = 1
   \<and> length (bandEvents sampleHelpers 1000 (newGenerator\<lparr>adaptivesDifficulty := 0.5\<rparr>)
         sampleAnalysis) = 2"
proof -
  have h: "(0.5::real) < 3.0" by simp
  have "length (bandEvents sampleHelpers 1000 (newGenerator\<lparr>adaptivesDifficulty := 3.0\<rparr>)
         sampleAnalysis) = 1"
    by (simp add: bandEvents_def sampleAnalysis_def getThresholdForBand_def)
  moreover have "length (bandEvents sampleHelpers 1000
         (newGenerator\<lparr>adaptivesDifficulty := 0.5\<rparr>) sampleAnalysis) = 2"
    by (simp add: bandEvents_def sampleAnalysis_def getThresholdForBand_def)
  ultimately show ?thesis
    using h threshold_increasing [OF h, of newGenerator Treble sampleHelpers 1000 sampleAnalysis]
    by simp
qed

lemma set_spawns: "set (spawns evs) = {e. GeometrySpawn e \<in> set evs}"
  by (induction evs rule: spawns.induct) auto

lemma telegraph_create:
  "3000 \<le> telegraphDuration (createEventFromBand hp now g b bd a)"
  by (simp add: createEventFromBand_def calculateTelegraphDuration_def configTelegraphDuration_def Let_def)

lemma telegraph_scaleEvent:
  "scaleEvent m ev = GeometrySpawn e \<Longrightarrow>
   \<exists>e'. ev = GeometrySpawn e' \<and> telegraphDuration e' = telegraphDuration e"
  by (cases ev) (auto split: if_splits)

lemma telegraph_bandEvents:
  "GeometrySpawn e \<in> set (bandEvents hp now g a) \<Longrightarrow> 3000 \<le> telegraphDuration e"
  by (auto simp add: bandEvents_def telegraph_create)

lemma special_not_spawn:
  "GeometrySpawn e \<notin> set (generateSpecialEvents hp now a)"
  by (auto simp add: generateSpecialEvents_def)

lemma telegraph_generate:
  assumes "\<forall>e\<in>set (spawns (segmentQueue g)). 3000 \<le> telegraphDuration e"
  shows "\<forall>e\<in>set (spawns (segmentQueue (generateEventsFromAudio hp now hits a g))).
           3000 \<le> telegraphDuration e"
proof
  fix e
  assume "e \<in> set (spawns (segmentQueue (generateEventsFromAudio hp now hits a g)))"
  then have "GeometrySpawn e \<in> set (segmentQueue g)
     \<or> (\<exists>m ev. ev \<in> set (bandEvents hp now g a @ generateSpecialEvents hp now a)
           \<and> scaleEvent m ev = GeometrySpawn e)"
    by (simp add: set_spawns generateEventsFromAudio_def queueEvents_def
        scaleDifficultyBasedOnPerformance_def Let_def image_iff) metis
  then show "3000 \<le> telegraphDuration e"
  proof
    assume "GeometrySpawn e \<in> set (segmentQueue g)"
    then show ?thesis using assms by (simp add: set_spawns)
  next
    assume "\<exists>m ev. ev \<in> set (bandEvents hp now g a @ generateSpecialEvents hp now a)
           \<and> scaleEvent m ev = GeometrySpawn e"
    then obtain m ev where ev: "ev \<in> set (bandEvents hp now g a @ generateSpecialEvents hp now a)"
      and sc: "scaleEvent m ev = GeometrySpawn e"
      by blast
    from telegraph_scaleEvent [OF sc] obtain e' where e': "ev = GeometrySpawn e'"
      "telegraphDuration e' = telegraphDuration e" by blast
    with ev have "GeometrySpawn e' \<in> set (bandEvents hp now g a)"
      using special_not_spawn by auto
    then show ?thesis using telegraph_bandEvents e' by fastforce
  qed
qed

lemma telegraph_generateAll:
  "\<forall>e\<in>set (spawns (segmentQueue g)). 3000 \<le> telegraphDuration e \<Longrightarrow>
   \<forall>e\<in>set (spawns (segmentQueue (generateAll hp g frames))). 3000 \<le> telegraphDuration e"
proof (induction frames arbitrary: g)
  case Nil
  then show ?case by simp
next
  case (Cons f fs)
  obtain now hits a where f: "f = (now, hits, a)" by (cases f)
  show ?case
    unfolding f generateAll.simps
    by (rule Cons.IH) (rule telegraph_generate [OF Cons.prems])
qed

text \<open>
  C1. Every band event in the queue of the generator has a telegraph duration of at least
  3000 ms: for every frame sequence, every band, every helper and every value \<open>m\<close> of
  the adaptive difficulty multiplier the generator starts with.
\<close>

theorem telegraph_at_least_3000:
  "\<forall>e\<in>set (spawns (segmentQueue (generateAll hp (newGenerator\<lparr>adaptivesDifficulty := m\<rparr>) frames))).
     3000 \<le> telegraphDuration e"
  by (rule telegraph_generateAll) (simp add: newGenerator_def)

theorem telegraph_at_least_3000_witness:
  "map telegraphDuration (spawns (segmentQueue
      (generateAll sampleHelpers (newGenerator\<lparr>adaptivesDifficulty := 3.0\<rparr>)
         [(1000, [], sampleAnalysis)]))) = [3000]
   \<and> map telegraphDuration (spawns (segmentQueue
      (generateAll sampleHelpers (newGenerator\<lparr>adaptivesDifficulty := 0.5\<rparr>)
         [(1000, [], sampleAnalysis)]))) = [4925, 4550]
   \<and> 3000 \<le> telegraphDuration (hd (spawns (segmentQueue
      (generateAll sampleHelpers (newGenerator\<lparr>adaptivesDifficulty := 3.0\<rparr>)
         [(1000, [], sampleAnalysis)]))))
   \<and> 3000 \<le> telegraphDuration (hd (spawns (segmentQueue
      (generateAll sampleHelpers (newGenerator\<lparr>adaptivesDifficulty := 0.5\<rparr>)
         [(1000, [], sampleAnalysis)]))))"
proof -
  let ?hard = "spawns (segmentQueue
      (generateAll sampleHelpers (newGenerator\<lparr>adaptivesDifficulty := 3.0\<rparr>)
         [(1000, [], sampleAnalysis)]))"
  let ?easy = "spawns (segmentQueue
      (generateAll sampleHelpers (newGenerator\<lparr>adaptivesDifficulty := 0.5\<rparr>)
         [(1000, [], sampleAnalysis)]))"
  have hard: "map telegraphDuration ?hard = [3000]"
    by (simp add: generateEventsFromAudio_def bandEvents_def generateSpecialEvents_def
        scaleDifficultyBasedOnPerformance_def queueEvents_def createEventFromBand_def
        calculateTelegraphDuration_def configTelegraphDuration_def calculateSpawnDelay_def
        getThresholdForBand_def calculateRecentPerformance_def adaptDifficulty_def
        sampleHelpers_def sampleAnalysis_def newGenerator_def Let_def)
  have easy: "map telegraphDuration ?easy = [4925, 4550]"
    by (simp add: generateEventsFromAudio_def bandEvents_def generateSpecialEvents_def
        scaleDifficultyBasedOnPerformance_def queueEvents_def createEventFromBand_def
        calculateTelegraphDuration_def configTelegraphDuration_def calculateSpawnDelay_def
        getThresholdForBand_def calculateRecentPerformance_def adaptDifficulty_def
        sampleHelpers_def sampleAnalysis_def newGenerator_def Let_def)
  have "?hard \<noteq> []" using hard by auto
  then have "hd ?hard \<in> set ?hard" by (rule hd_in_set)
  then have h: "3000 \<le> telegraphDuration (hd ?hard)"
    using telegraph_at_least_3000 [of sampleHelpers "3.0" "[(1000, [], sampleAnalysis)]"]
    by blast
  have "?easy \<noteq> []" using easy by auto
  then have "hd ?easy \<in> set ?easy" by (rule hd_in_set)
  then have e: "3000 \<le> telegraphDuration (hd ?easy)"
    using telegraph_at_least_3000 [of sampleHelpers "0.5" "[(1000, [], sampleAnalysis)]"]
    by blast
  show ?thesis
    using hard easy h e by (simp only:) 
qed

section \<open>Properties of the parameter sink adapter\<close>

subsection \<open>Change detection\<close>

text \<open>
  C9, as stated, fails: the stored hue is 0.5, the new value is within \<open>10\<^sup>-\<^sup>9\<close> of
  it, and the update is forwarded to the sink and stored.
\<close>

theorem hue_forwarded_within_epsilon:
  "currentParams newIntegration ''hue'' = Some 0.5
   \<and> \<bar>(0.5 + 1 / 10 ^ 9) - (0.5::real)\<bar> \<le> 1 / 10 ^ 9
   \<and> sinkCalls (updateVIB34DParameters [(''hue'', 0.5 + 1 / 10 ^ 9)] newIntegration)
       = [(''hue'', 0.5 + 1 / 10 ^ 9)]
   \<and> currentParams (updateVIB34DParameters [(''hue'', 0.5 + 1 / 10 ^ 9)] newIntegration) ''hue''
       = Some (0.5 + 1 / 10 ^ 9)"
  by (simp add: newIntegration_def)

text \<open>The same for every positive epsilon: a value half an epsilon away is forwarded.\<close>

lemma forwarded_within_any_epsilon:
  "0 < eps \<Longrightarrow> currentParams s p = Some v \<Longrightarrow>
   sinkCalls (updateVIB34DParameters [(p, v + eps / 2)] s) = sinkCalls s @ [(p, v + eps / 2)]"
  by simp

text \<open>
  C9, amended. The adapter compares with \<^verbatim>\<open>!==\<close>, without an epsilon: of the
  entries of a parameter object (their names are distinct), exactly those whose value is
  not identical to the stored one are forwarded, in order, and stored; an entry equal to
  the stored value makes no call and leaves the stored value as it is.
\<close>

theorem updateVIB34DParameters_exact:
  "distinct (map fst ps) \<Longrightarrow>
   sinkCalls (updateVIB34DParameters ps s)
     = sinkCalls s @ filter (\<lambda>(p, v). currentParams s p \<noteq> Some v) ps
   \<and> currentParams (updateVIB34DParameters ps s) = currentParams s ++ map_of ps"
proof (induction ps arbitrary: s)
  case Nil
  then show ?case by simp
next
  case (Cons pv ps)
  obtain p v where pv: "pv = (p, v)" by (cases pv)
  define s' where "s' = (if currentParams s p \<noteq> Some v
        then s\<lparr>sinkCalls := sinkCalls s @ [(p, v)],
               currentParams := (currentParams s)(p \<mapsto> v)\<rparr>
        else s)"
  have d: "distinct (map fst ps)" and notin: "p \<notin> fst ` set ps"
    using Cons.prems by (auto simp add: pv)
  have IH: "sinkCalls (updateVIB34DParameters ps s')
     = sinkCalls s' @ filter (\<lambda>(p, v). currentParams s' p \<noteq> Some v) ps
   \<and> currentParams (updateVIB34DParameters ps s') = currentParams s' ++ map_of ps"
    by (rule Cons.IH [OF d])
  have cur: "currentParams s' = (currentParams s)(p \<mapsto> v)"
    by (auto simp add: s'_def)
  have calls: "sinkCalls s'
      = sinkCalls s @ filter (\<lambda>(q, w). currentParams s q \<noteq> Some w) [(p, v)]"
    by (simp add: s'_def)
  have other: "currentParams s' q = currentParams s q" if "(q, w) \<in> set ps" for q w
  proof -
    have "q \<noteq> p" using that notin by force
    then show ?thesis by (simp add: cur)
  qed
  have same: "filter (\<lambda>(q, w). currentParams s' q \<noteq> Some w) ps
            = filter (\<lambda>(q, w). currentParams s q \<noteq> Some w) ps"
    by (rule filter_cong) (auto simp add: other)
  have nodom: "map_of ps p = None"
    using notin by (simp add: map_of_eq_None_iff)
  have m: "currentParams s' ++ map_of ps = currentParams s ++ map_of (pv # ps)"
  proof (rule ext)
    fix q
    show "(currentParams s' ++ map_of ps) q = (currentParams s ++ map_of (pv # ps)) q"
      using nodom by (cases "q = p") (auto simp add: pv cur map_add_def split: option.splits)
  qed
  have upd: "updateVIB34DParameters (pv # ps) s = updateVIB34DParameters ps s'"
    by (simp add: pv s'_def)
  have "sinkCalls (updateVIB34DParameters ps s')
          = sinkCalls s @ filter (\<lambda>(q, w). currentParams s q \<noteq> Some w) (pv # ps)"
    using IH same calls by (simp add: pv)
  moreover have "currentParams (updateVIB34DParameters ps s')
          = currentParams s ++ map_of (pv # ps)"
    using IH m by (simp only:)
  ultimately show ?case
    by (simp only: upd)
qed

theorem updateVIB34DParameters_exact_witness:
  "distinct (map fst [(''hue'', 0.5::real), (''chaos'', 0.7)])
   \<and> sinkCalls (updateVIB34DParameters [(''hue'', 0.5), (''chaos'', 0.7)] newIntegration)
       = [(''chaos'', 0.7)]
   \<and> currentParams (updateVIB34DParameters [(''hue'', 0.5), (''chaos'', 0.7)] newIntegration)
         ''hue'' = Some 0.5"
proof -
  have h: "distinct (map fst [(''hue'', 0.5::real), (''chaos'', 0.7)])" by simp
  show ?thesis
    using h updateVIB34DParameters_exact [OF h, of newIntegration]
    by (simp add: newIntegration_def)
qed

subsection \<open>The values forwarded at two inputs\<close>

lemma coh_loud:
  "coherenceState (updateCoherenceState loudData quarterBeat newIntegration) =
     \<lparr>beatPhase = pi / 2, harmonicPhases = [pi, pi * 3 / 4, pi * 5 / 8], energyBass = 4,
      energyMid = 0, energyTreble = 0, energyTotal = 2, spectralCentroid = 440, tempo = 60\<rparr>"
  by (simp add: updateCoherenceState_def loudData_def quarterBeat_def newIntegration_def
      Let_def)

lemma params_loud:
  "calculateCoherentParameters loudData
     (updateCoherenceState loudData quarterBeat newIntegration)
   = [(''rot4dXW'', 8), (''rot4dYW'', 0), (''rot4dZW'', 0), (''gridDensity'', 100),
      (''morphFactor'', 0.3), (''chaos'', 0.5), (''speed'', 0.5), (''hue'', 0.5),
      (''intensity'', 1.6), (''saturation'', 1.4), (''geometry'', 4)]"
  by (simp add: calculateCoherentParameters_def coh_loud Let_def js_rem_def)
    (simp add: loudData_def)

lemma coh_quiet:
  "coherenceState (updateCoherenceState quietData threeEighthsBeat newIntegration) =
     \<lparr>beatPhase = 3 / 4 * pi, harmonicPhases = [3 / 2 * pi, 9 / 8 * pi, 15 / 16 * pi],
      energyBass = 0, energyMid = 0, energyTreble = 0, energyTotal = 0, spectralCentroid = 440,
      tempo = 150\<rparr>"
  by (simp add: updateCoherenceState_def quietData_def threeEighthsBeat_def newIntegration_def
      Let_def)

lemma sin_3pi_2: "sin (3 * pi / 2) = - 1"
  using sin_3over2_pi by simp

lemma params_quiet:
  "calculateCoherentParameters quietData
     (updateCoherenceState quietData threeEighthsBeat newIntegration)
   = [(''rot4dXW'', 0), (''rot4dYW'', 0), (''rot4dZW'', 0), (''gridDensity'', 30),
      (''morphFactor'', - 0.1), (''chaos'', 0.5), (''speed'', 1.25), (''hue'', 0.5),
      (''intensity'', 0.4), (''saturation'', 0.6), (''geometry'', 4)]"
  by (simp add: calculateCoherentParameters_def coh_quiet Let_def js_rem_def sin_3pi_2)
    (simp add: quietData_def)

lemma log2_64th: "log 2 (1 / 64) = - 6"
proof -
  have "(1 / 64 :: real) = 2 powr (- 6)"
    by (simp add: powr_minus_divide)
  then show ?thesis by (simp only: log_powr_cancel)
qed

lemma ceiling_tenth: "\<lceil>- (1 / 10 :: real)\<rceil> = 0"
  by (simp add: ceiling_eq_iff)

lemma coh_low:
  "coherenceState (updateCoherenceState lowData threeEighthsBeat newIntegration) =
     \<lparr>beatPhase = 3 / 4 * pi, harmonicPhases = [3 / 2 * pi, 9 / 8 * pi, 15 / 16 * pi],
      energyBass = 0, energyMid = 0, energyTreble = 0, energyTotal = 0,
      spectralCentroid = 6.875, tempo = 150\<rparr>"
  by (simp add: updateCoherenceState_def lowData_def quietData_def threeEighthsBeat_def
      newIntegration_def Let_def)

lemma params_low:
  "calculateCoherentParameters lowData
     (updateCoherenceState lowData threeEighthsBeat newIntegration)
   = [(''rot4dXW'', 0), (''rot4dYW'', 0), (''rot4dZW'', 0), (''gridDensity'', 30),
      (''morphFactor'', - 0.1), (''chaos'', 0.5), (''speed'', 1.25), (''hue'', - 0.1),
      (''intensity'', 0.4), (''saturation'', 0.6), (''geometry'', 4)]"
  by (simp add: calculateCoherentParameters_def coh_low Let_def js_rem_def sin_3pi_2
      log2_64th ceiling_tenth)
    (simp add: lowData_def quietData_def)

lemma updateCoherenceState_keeps:
  "currentParams (updateCoherenceState a bi s) = currentParams s"
  "sinkCalls (updateCoherenceState a bi s) = sinkCalls s"
  by (simp_all add: updateCoherenceState_def Let_def)

lemma newIntegration_fields:
  "currentParams newIntegration = map_of
        [(''rot4dXW'', 0), (''rot4dYW'', 0), (''rot4dZW'', 0), (''gridDensity'', 50),
         (''morphFactor'', 0.5), (''chaos'', 0.5), (''speed'', 1.0), (''hue'', 0.5),
         (''intensity'', 0.5), (''saturation'', 0.5), (''geometry'', 0)]"
  "sinkCalls newIntegration = []"
  by (simp_all add: newIntegration_def)

lemma sink_quiet:
  "sinkCalls (updateVIB34DParameters
      (calculateCoherentParameters quietData
         (updateCoherenceState quietData threeEighthsBeat newIntegration))
      (updateCoherenceState quietData threeEighthsBeat newIntegration))
   = [(''gridDensity'', 30), (''morphFactor'', - 0.1), (''speed'', 1.25), (''intensity'', 0.4),
      (''saturation'', 0.6), (''geometry'', 4)]"
  by (simp add: params_quiet updateCoherenceState_keeps newIntegration_fields)

lemma sink_low:
  "sinkCalls (updateVIB34DParameters
      (calculateCoherentParameters lowData
         (updateCoherenceState lowData threeEighthsBeat newIntegration))
      (updateCoherenceState lowData threeEighthsBeat newIntegration))
   = [(''gridDensity'', 30), (''morphFactor'', - 0.1), (''speed'', 1.25), (''hue'', - 0.1),
      (''intensity'', 0.4), (''saturation'', 0.6), (''geometry'', 4)]"
  by (simp add: params_low updateCoherenceState_keeps newIntegration_fields)

lemma sink_loud:
  "sinkCalls (updateVIB34DParameters
      (calculateCoherentParameters loudData
         (updateCoherenceState loudData quarterBeat newIntegration))
      (updateCoherenceState loudData quarterBeat newIntegration))
   = [(''rot4dXW'', 8), (''gridDensity'', 100), (''morphFactor'', 0.3), (''speed'', 0.5),
      (''intensity'', 1.6), (''saturation'', 1.4), (''geometry'', 4)]"
  by (simp add: params_loud updateCoherenceState_keeps newIntegration_fields)


text \<open>The clamped parameters are in range: grid density within 5..100, speed within
  0.1..3, chaos at most 1 and geometry at most 8.\<close>

lemma clamped_parameters:
  "map_of (calculateCoherentParameters a s) ''gridDensity''
     = Some (max 5 (min 100 (30 + energyTotal (coherenceState s) * 50)))
   \<and> map_of (calculateCoherentParameters a s) ''speed''
     = Some (max 0.1 (min 3.0 (tempo (coherenceState s) / 120)))
   \<and> map_of (calculateCoherentParameters a s) ''chaos''
     = Some (min 1.0 (js_or (Num (complexityScore a)) 0.5))
   \<and> map_of (calculateCoherentParameters a s) ''geometry''
     = Some (real_of_int \<lfloor>min 8 (js_or (Num (complexityScore a)) 0.5 * 8)\<rfloor>)"
  by (simp add: calculateCoherentParameters_def Let_def)

text \<open>
  C3 at three failing inputs. With a bass energy of 4 and a total energy of 2, a quarter of
  a beat after the last beat, the adapter forwards \<open>rot4dXW = 8\<close> (beyond
  \<open>2\<pi>\<close>), \<open>intensity = 1.6\<close> and \<open>saturation = 1.4\<close>. On a silent frame, three
  eighths of a beat after the last beat, it forwards \<open>morphFactor = -0.1\<close>; with a
  spectral centroid of 6.875 Hz it also forwards \<open>hue = -0.1\<close>.
\<close>

theorem forwarded_out_of_range:
  "sinkCalls (updateVIB34DParameters
      (calculateCoherentParameters loudData (updateCoherenceState loudData quarterBeat newIntegration))
      (updateCoherenceState loudData quarterBeat newIntegration))
     = [(''rot4dXW'', 8), (''gridDensity'', 100), (''morphFactor'', 0.3), (''speed'', 0.5),
        (''intensity'', 1.6), (''saturation'', 1.4), (''geometry'', 4)]
   \<and> 2 * pi < 8
   \<and> sinkCalls (updateVIB34DParameters
      (calculateCoherentParameters quietData
         (updateCoherenceState quietData threeEighthsBeat newIntegration))
      (updateCoherenceState quietData threeEighthsBeat newIntegration))
     = [(''gridDensity'', 30), (''morphFactor'', - 0.1), (''speed'', 1.25), (''intensity'', 0.4),
        (''saturation'', 0.6), (''geometry'', 4)]
   \<and> sinkCalls (updateVIB34DParameters
      (calculateCoherentParameters lowData
         (updateCoherenceState lowData threeEighthsBeat newIntegration))
      (updateCoherenceState lowData threeEighthsBeat newIntegration))
     = [(''gridDensity'', 30), (''morphFactor'', - 0.1), (''speed'', 1.25), (''hue'', - 0.1),
        (''intensity'', 0.4), (''saturation'', 0.6), (''geometry'', 4)]"
proof -
  have "2 * pi < 8" using pi_less_4 by simp
  then show ?thesis by (simp only: sink_loud sink_quiet sink_low)
qed

section \<open>Properties of the spectral centroid\<close>

lemma magnitude_nonneg: "0 \<le> magnitude x"
  by (cases x) simp_all

lemma centroidSums_snd: "snd (centroidSums w i xs) = sum_list (map magnitude xs)"
  by (induction xs arbitrary: i) (simp_all add: case_prod_beta del: magnitude.simps)

lemma sum_magnitude_nonneg: "0 \<le> sum_list (map magnitude xs)"
  by (induction xs) (simp_all add: magnitude_nonneg del: magnitude.simps)

lemma bounds_apart: "underflowBound < overflowBound"
  by (simp add: underflowBound_def overflowBound_def)

lemma overflows_magnitude: "overflows x \<Longrightarrow> 0 < magnitude x"
proof (cases x)
  case NegInf
  assume "overflows x"
  with NegInf show ?thesis by simp
next
  case (Fin l)
  assume "overflows x"
  with Fin have "overflowBound \<le> 10 powr (l / 20)" by simp
  with bounds_apart have "underflowBound < 10 powr (l / 20)" by linarith
  with Fin show ?thesis by simp
qed

text \<open>A frame has total magnitude zero exactly when every bin is silent or underflows;
  no bin of such a frame overflows.\<close>

lemma zero_magnitude_bins:
  "sum_list (map magnitude fd) = 0 \<longleftrightarrow> (\<forall>x\<in>set fd. magnitude x = 0)"
proof (induction fd)
  case Nil
  then show ?case by simp
next
  case (Cons y ys)
  have "0 \<le> magnitude y" "0 \<le> sum_list (map magnitude ys)"
    by (rule magnitude_nonneg, rule sum_magnitude_nonneg)
  then have "magnitude y + sum_list (map magnitude ys) = 0
      \<longleftrightarrow> magnitude y = 0 \<and> sum_list (map magnitude ys) = 0"
    by linarith
  with Cons show ?case by (simp del: magnitude.simps)
qed

lemma zero_magnitude_no_overflow:
  "sum_list (map magnitude fd) = 0 \<Longrightarrow> \<not> list_ex overflows fd"
  using overflows_magnitude by (fastforce simp add: zero_magnitude_bins list_ex_iff)

lemma director_centroid_silent:
  "sum_list (map magnitude (frequencyData d)) = 0 \<Longrightarrow> calculateSpectralCentroid d = Num 440"
  by (simp add: calculateSpectralCentroid_def case_prod_beta centroidSums_snd
      zero_magnitude_no_overflow)

lemma particle_centroid_silent:
  "sum_list (map magnitude fd) = 0 \<Longrightarrow> particleSpectralCentroid fd = Num 0"
  by (simp add: particleSpectralCentroid_def case_prod_beta centroidSums_snd
      zero_magnitude_no_overflow)

lemma detectBeat_frequencyData: "frequencyData (snd (detectBeat now d)) = frequencyData d"
  by (simp add: detectBeat_def Let_def)

lemma getCurrentAnalysis_centroid:
  "dataCentroid (fst (getCurrentAnalysis now d)) = calculateSpectralCentroid (snd (detectBeat now d))"
  by (simp add: getCurrentAnalysis_def Let_def case_prod_beta)

lemma coherence_centroid:
  "spectralCentroid (coherenceState (updateCoherenceState a bi s)) = js_or (dataCentroid a) 440"
  by (simp add: updateCoherenceState_def Let_def)

lemma unified_centroid:
  "mathCentroid (updateUnifiedMathFromAudio a pf bi m) = dataCentroid a"
  by (simp add: updateUnifiedMathFromAudio_def Let_def)

text \<open>
  C7, amended. On every frame whose total magnitude is zero, the director's centroid
  function returns 440 and the particle system's returns 0, neither of them NaN; the
  particle system then stores 0, and both coherence states (the integration layer's and the
  unified mathematical state) hold a spectral centroid of 440. Nothing is said here about
  the other quantities of such a frame.
\<close>

theorem centroid_fallbacks:
  assumes "sum_list (map magnitude (frequencyData d)) = 0"
  shows "calculateSpectralCentroid d = Num 440
         \<and> particleSpectralCentroid (frequencyData d) = Num 0
         \<and> paramCentroid (updateAudioParameters now d p) = Num 0
         \<and> spectralCentroid (coherenceState
              (updateCoherenceState (fst (getCurrentAnalysis now d)) bi s)) = 440
         \<and> mathCentroid (updateUnifiedMathFromAudio (fst (getCurrentAnalysis now d)) pf bi m)
              = Num 440"
proof -
  have "calculateSpectralCentroid (snd (detectBeat now d)) = Num 440"
    by (rule director_centroid_silent) (simp add: detectBeat_frequencyData assms)
  then have "dataCentroid (fst (getCurrentAnalysis now d)) = Num 440"
    by (simp add: getCurrentAnalysis_centroid)
  then show ?thesis
    using director_centroid_silent [OF assms] particle_centroid_silent [OF assms]
    by (simp add: coherence_centroid unified_centroid updateAudioParameters_def Let_def)
qed

lemma sum_magnitude_silent: "sum_list (map magnitude (replicate n NegInf)) = 0"
  by (induction n) simp_all

lemma magnitude_underflow: "magnitude (Fin (- 7000)) = 0"
proof -
  have "(10::real) powr (- 350) = 1 / 10 ^ 350"
    by (simp add: powr_minus_divide)
  moreover have "(1::real) / 10 ^ 350 \<le> 1 / 2 ^ 1075"
    by simp
  ultimately show ?thesis by (simp add: underflowBound_def)
qed

text \<open>
  The witness has the silent frame of the analyser and a frame whose only bin is at
  -7000 dB, where the power underflows.
\<close>

theorem centroid_fallbacks_witness:
  "sum_list (map magnitude (frequencyData silentDirector)) = 0
   \<and> calculateSpectralCentroid silentDirector = Num 440
   \<and> particleSpectralCentroid silence = Num 0
   \<and> spectralCentroid (coherenceState
         (updateCoherenceState (fst (getCurrentAnalysis 16 silentDirector))
            quarterBeat newIntegration)) = 440
   \<and> mathCentroid (updateUnifiedMathFromAudio (fst (getCurrentAnalysis 16 silentDirector))
         PosInfinity quarterBeat newUnifiedMath) = Num 440
   \<and> sum_list (map magnitude (frequencyData (silentDirector\<lparr>frequencyData := [Fin (- 7000)]\<rparr>)))
       = 0
   \<and> calculateSpectralCentroid (silentDirector\<lparr>frequencyData := [Fin (- 7000)]\<rparr>) = Num 440"
proof -
  have fd: "frequencyData silentDirector = silence"
    by (simp add: silentDirector_def)
  have h: "sum_list (map magnitude (frequencyData silentDirector)) = 0"
    unfolding fd silence_def by (rule sum_magnitude_silent)
  have l: "sum_list (map magnitude
             (frequencyData (silentDirector\<lparr>frequencyData := [Fin (- 7000)]\<rparr>))) = 0"
    by (simp add: magnitude_underflow del: magnitude.simps)
  show ?thesis
    using h l
      centroid_fallbacks [OF h, of 16 newAudioParams quarterBeat newIntegration PosInfinity
        newUnifiedMath]
      centroid_fallbacks [OF l, of 16 newAudioParams quarterBeat newIntegration PosInfinity
        newUnifiedMath]
    by (simp add: fd del: magnitude.simps)
qed

text \<open>Where the power of a bin overflows, the model has the NaN of the code.\<close>

lemma overflows_7000: "overflows (Fin 7000)"
proof -
  have "(10::real) powr 350 = 10 ^ 350"
    by simp
  moreover have "(2::real) ^ 1024 - 2 ^ 970 \<le> 10 ^ 350"
    by simp
  ultimately show ?thesis by (simp add: overflowBound_def)
qed

lemma centroid_overflow:
  "calculateSpectralCentroid (silentDirector\<lparr>frequencyData := [Fin 7000]\<rparr>) = NaN
   \<and> particleSpectralCentroid [Fin 7000] = NaN"
  using overflows_7000
  by (simp add: calculateSpectralCentroid_def particleSpectralCentroid_def case_prod_beta
      del: magnitude.simps overflows.simps)

subsection \<open>Silence in the particle system and in the pitch\<close>

lemma centroidSums_silent: "centroidSums w i (replicate n NegInf) = (0, 0)"
  by (induction n arbitrary: i) simp_all

lemma no_overflow_silent: "\<not> list_ex overflows (replicate n NegInf)"
  by (induction n) simp_all

lemma particle_oneBin_n: "particleSpectralCentroid (NegInf # Fin 0 # replicate n NegInf) = Num 1"
proof -
  have "\<not> overflows (Fin 0)"
    by (simp add: overflowBound_def)
  then show ?thesis
    by (simp add: particleSpectralCentroid_def centroidSums_silent no_overflow_silent
        magnitude_0dB del: magnitude.simps(2) overflows.simps(2))
qed

lemma particle_oneBin: "particleSpectralCentroid oneBin = Num 1"
  unfolding oneBin_def by (rule particle_oneBin_n)

lemma particle_silence: "particleSpectralCentroid silence = Num 0"
  unfolding silence_def by (rule particle_centroid_silent) (rule sum_magnitude_silent)

lemma correlation_silent: "correlation (replicate n 0) k = 0"
  by (simp add: correlation_def sum_list_replicate)

lemma betterOffset_silent: "foldl (betterOffset (replicate n 0)) (0, 0) ks = (0, 0)"
  by (induction ks) (simp_all add: betterOffset_def correlation_silent)

lemma autocorrelate_silent: "autocorrelate (replicate n 0) = 0"
  by (simp add: autocorrelate_def betterOffset_silent)

lemma detectPitch_silent: "detectPitch silentTime silentDirector = PosInfinity"
  by (simp add: detectPitch_def silentTime_def autocorrelate_silent silentDirector_def
      newDirector_def)

lemma fundamental_infinite:
  "fundamental (updateUnifiedMathFromAudio a PosInfinity bi m) = PosInfinity"
  by (simp add: updateUnifiedMathFromAudio_def Let_def)

lemma hue_of_infinite_fundamental:
  "fundamental m = PosInfinity \<Longrightarrow>
   map_of (updateVIB34DFromUnifiedMath m) ''hue'' = Some NotANumber"
  by (simp add: updateVIB34DFromUnifiedMath_def frequencyToHue_def)

text \<open>
  C7, as stated, fails, in both of its halves. The particle system computes the centroid 1
  on a frame whose only sounding bin is bin 1; on the silent frame that follows it stores
  0, which is neither 440 nor the previous valid value. And on a silent frame the
  autocorrelation returns the offset 0, the pitch is the sample rate divided by 0, the
  infinite frequency passes \<^verbatim>\<open>|| 440\<close> into the unified mathematical state, and the
  hue handed to \<^verbatim>\<open>vib34d.updateParameters\<close> is NaN.
\<close>

theorem silence_counterexample:
  "sum_list (map magnitude silence) = 0
   \<and> paramCentroid (updateAudioParameters 16 ((newDirector 44100)\<lparr>frequencyData := oneBin\<rparr>)
        newAudioParams) = Num 1
   \<and> paramCentroid (updateAudioParameters 32 silentDirector
        (updateAudioParameters 16 ((newDirector 44100)\<lparr>frequencyData := oneBin\<rparr>)
           newAudioParams)) = Num 0
   \<and> Num 0 \<noteq> Num 440 \<and> Num 0 \<noteq> Num 1
   \<and> autocorrelate silentTime = 0
   \<and> detectPitch silentTime silentDirector = PosInfinity
   \<and> fundamental (updateUnifiedMathFromAudio (fst (getCurrentAnalysis 32 silentDirector))
        (detectPitch silentTime silentDirector)
        (getBeatInfo 32 (snd (getCurrentAnalysis 32 silentDirector))) newUnifiedMath)
       = PosInfinity
   \<and> map_of (updateVIB34DFromUnifiedMath
        (updateUnifiedMathFromAudio (fst (getCurrentAnalysis 32 silentDirector))
           (detectPitch silentTime silentDirector)
           (getBeatInfo 32 (snd (getCurrentAnalysis 32 silentDirector))) newUnifiedMath))
        ''hue'' = Some NotANumber"
proof -
  have s: "sum_list (map magnitude silence) = 0"
    unfolding silence_def by (rule sum_magnitude_silent)
  have fd: "frequencyData silentDirector = silence"
    by (simp add: silentDirector_def)
  have p: "paramCentroid (updateAudioParameters 16
             ((newDirector 44100)\<lparr>frequencyData := oneBin\<rparr>) newAudioParams) = Num 1
        \<and> paramCentroid (updateAudioParameters 32 silentDirector
             (updateAudioParameters 16 ((newDirector 44100)\<lparr>frequencyData := oneBin\<rparr>)
                newAudioParams)) = Num 0"
    by (simp add: updateAudioParameters_def particle_oneBin particle_silence fd Let_def)
  have a: "autocorrelate silentTime = 0"
    unfolding silentTime_def by (rule autocorrelate_silent)
  show ?thesis
    using s p a
    by (simp add: detectPitch_silent fundamental_infinite hue_of_infinite_fundamental)
qed

section \<open>Properties of the pipeline\<close>

lemma updateVIB34DParameters_coherence:
  "coherenceState (updateVIB34DParameters ps s) = coherenceState s"
  by (induction ps s rule: updateVIB34DParameters.induct) simp_all

lemma updateVisualFeedbackParameters_coherence:
  "coherenceState (updateVisualFeedbackParameters ps s) = coherenceState s"
  by (induction ps s rule: updateVisualFeedbackParameters.induct) simp_all

lemma tick_director:
  "pDirector (tick frame ck rnd p) = tickDirector frame ck (pDirector p)"
  by (simp add: tick_def tickDirector_def Let_def case_prod_beta)

lemma tick_coherence:
  "coherenceState (pIntegration (tick frame ck rnd p)) =
     coherenceState (updateCoherenceState
       (fst (getCurrentAnalysis (analysisNow ck) (snd (processAudio (frame, loopNow ck) (pDirector p)))))
       (getBeatInfo (infoNow ck) (tickDirector frame ck (pDirector p))) s0)"
  by (simp add: tick_def tickDirector_def Let_def case_prod_beta
      updateVIB34DParameters_coherence updateVisualFeedbackParameters_coherence)
     (simp add: updateCoherenceState_def Let_def)

lemma coherenceRun_director:
  "pDirector p = pDirector q \<Longrightarrow> coherenceRun p i rnd1 fs = coherenceRun q j rnd2 fs"
proof (induction fs arbitrary: p q i j)
  case Nil
  then show ?case by simp
next
  case (Cons f fs)
  obtain frame ck where f: "f = (frame, ck)" by (cases f)
  have d: "pDirector (tick frame ck (rnd1 i) p) = pDirector (tick frame ck (rnd2 j) q)"
    by (simp add: tick_director Cons.prems)
  have c: "coherenceState (pIntegration (tick frame ck (rnd1 i) p))
         = coherenceState (pIntegration (tick frame ck (rnd2 j) q))"
    using tick_coherence [of frame ck "rnd1 i" p newIntegration]
      tick_coherence [of frame ck "rnd2 j" q newIntegration]
    by (simp add: Cons.prems)
  show ?case
    using Cons.IH [OF d] c by (simp add: f Let_def)
qed

text \<open>
  C4, amended. The code reads the wall clock (\<^verbatim>\<open>Date.now()\<close>) wherever it needs the
  time; a frame carries no time of its own. Two fresh pipelines that are fed the same
  frames and read the same clock values produce the same sequence of coherence states,
  whatever numbers \<^verbatim>\<open>Math.random()\<close> returns in the two runs.
\<close>

theorem coherence_replay:
  "coherenceRun (newPipeline rate) 0 rnd1 frames = coherenceRun (newPipeline rate) 0 rnd2 frames"
  by (rule coherenceRun_director) simp

lemma fresh_tick_beatPhase:
  "beatPhase (coherenceState (pIntegration (tick silence (clockAt t) r (newPipeline 44100))))
   = real_of_int t / 500 * pi * 2"
  apply (simp add: tick_coherence [where ?s0.0 = newIntegration] updateCoherenceState_def Let_def
      getBeatInfo_def tickDirector_def newPipeline_def clockAt_def)
  apply (simp add: getCurrentAnalysis_def processAudio_def detectBeat_def calculateTempo_def
      noBeat_def Let_def case_prod_beta newDirector_def)
  done

text \<open>
  C4, as stated, fails. Two fresh pipelines replay the same single silent frame, the first
  with the clock at 1000 ms and the second with the clock at 1100 ms: the beat phase of the
  coherence state is \<open>4\<pi>\<close> in the first run and \<open>4.4\<pi>\<close> in the second.
\<close>

theorem replay_depends_on_clock:
  "coherenceRun (newPipeline 44100) 0 zeroRandom [(silence, clockAt 1000)]
     \<noteq> coherenceRun (newPipeline 44100) 0 zeroRandom [(silence, clockAt 1100)]"
proof
  assume "coherenceRun (newPipeline 44100) 0 zeroRandom [(silence, clockAt 1000)]
     = coherenceRun (newPipeline 44100) 0 zeroRandom [(silence, clockAt 1100)]"
  then have "coherenceState (pIntegration (tick silence (clockAt 1000) (zeroRandom 0) (newPipeline 44100)))
     = coherenceState (pIntegration (tick silence (clockAt 1100) (zeroRandom 0) (newPipeline 44100)))"
    by (simp add: Let_def)
  then have "beatPhase (coherenceState (pIntegration
                 (tick silence (clockAt 1000) (zeroRandom 0) (newPipeline 44100))))
     = beatPhase (coherenceState (pIntegration
                 (tick silence (clockAt 1100) (zeroRandom 0) (newPipeline 44100))))"
    by (rule arg_cong)
  then have "real_of_int 1000 / 500 * pi * 2 = real_of_int 1100 / 500 * pi * 2"
    by (simp only: fresh_tick_beatPhase)
  then show False by simp
qed

end
